theory Spec2Isabelle
  imports Main "HOL-Library.AList" "HOL-Library.Sublist"
begin

section \<open>Python strings and paths\<close>

text \<open>
  A Python \<open>str\<close> or \<open>bytes\<close> value is a \<open>string\<close> (a list of bytes; a character
  outside ASCII is its UTF-8 bytes). The helpers below follow \<open>str.lower\<close>,
  \<open>str.split\<close>, \<open>str.join\<close>, \<open>str.rfind\<close> and \<open>str(int)\<close> on such values.
\<close>

definition lower_char :: "char \<Rightarrow> char" where
  "lower_char c =
     (case map_of (zip ''ABCDEFGHIJKLMNOPQRSTUVWXYZ'' ''abcdefghijklmnopqrstuvwxyz'') c of
        None \<Rightarrow> c
      | Some d \<Rightarrow> d)"

definition py_lower :: "string \<Rightarrow> string" where
  "py_lower s = map lower_char s"

fun split_on :: "char \<Rightarrow> string \<Rightarrow> string list" where
  "split_on sep [] = [[]]"
| "split_on sep (c # cs) =
     (if c = sep then [] # split_on sep cs
      else (case split_on sep cs of
              [] \<Rightarrow> [[c]]
            | w # ws \<Rightarrow> (c # w) # ws))"

fun join_str :: "string \<Rightarrow> string list \<Rightarrow> string" where
  "join_str sep [] = []"
| "join_str sep [x] = x"
| "join_str sep (x # y # ys) = x @ sep @ join_str sep (y # ys)"

fun rfind_char :: "char \<Rightarrow> string \<Rightarrow> int" where
  "rfind_char c [] = -1"
| "rfind_char c (x # xs) =
     (let r = rfind_char c xs in
      if 0 \<le> r then r + 1 else if x = c then 0 else -1)"

definition digit_char :: "nat \<Rightarrow> char" where
  "digit_char d = ''0123456789'' ! d"

fun str_nat :: "nat \<Rightarrow> string" where
  "str_nat n = (if n < 10 then [digit_char n] else str_nat (n div 10) @ [digit_char (n mod 10)])"

declare str_nat.simps [simp del]

text \<open>
  \<open>pathlib\<close>: the parts of a pure POSIX path are the components between slashes, the
  empty ones and \<open>.\<close> dropped; \<open>name\<close> is the last part (empty when there is none);
  \<open>suffix\<close> is the name from its last dot on, when that dot is neither the first nor the
  last character of the name.
\<close>

definition path_parts :: "string \<Rightarrow> string list" where
  "path_parts p = filter (\<lambda>x. x \<noteq> [] \<and> x \<noteq> ''.'') (split_on CHR ''/'' p)"

definition path_root :: "string \<Rightarrow> string" where
  "path_root p =
     (if prefix ''//'' p \<and> \<not> prefix ''///'' p then ''//''
      else if prefix ''/'' p then ''/'' else [])"

definition path_name :: "string \<Rightarrow> string" where
  "path_name p = (case rev (path_parts p) of [] \<Rightarrow> [] | x # xs \<Rightarrow> x)"

definition name_suffix :: "string \<Rightarrow> string" where
  "name_suffix name =
     (let i = rfind_char CHR ''.'' name in
      if 0 < i \<and> i < int (length name) - 1 then drop (nat i) name else [])"

definition path_suffix :: "string \<Rightarrow> string" where
  "path_suffix p = name_suffix (path_name p)"

definition path_stem :: "string \<Rightarrow> string" where
  "path_stem p =
     (let name = path_name p; i = rfind_char CHR ''.'' name in
      if 0 < i \<and> i < int (length name) - 1 then take (nat i) name else name)"

definition pure_path :: "string \<Rightarrow> string" where
  "pure_path p =
     (let s = path_root p @ join_str ''/'' (path_parts p) in if s = [] then ''.'' else s)"

text \<open>\<open>posixpath\<close>: \<open>join\<close> of two paths, \<open>basename\<close>, \<open>normpath\<close>, \<open>abspath\<close>.\<close>

definition os_path_join :: "string \<Rightarrow> string \<Rightarrow> string" where
  "os_path_join a b =
     (if prefix ''/'' b then b
      else if a = [] \<or> suffix ''/'' a then a @ b
      else a @ ''/'' @ b)"

definition os_path_basename :: "string \<Rightarrow> string" where
  "os_path_basename p = last (split_on CHR ''/'' p)"

fun norm_comps :: "bool \<Rightarrow> string list \<Rightarrow> string list \<Rightarrow> string list" where
  "norm_comps rooted new_comps [] = new_comps"
| "norm_comps rooted new_comps (part # parts) =
     (if part = [] \<or> part = ''.'' then norm_comps rooted new_comps parts
      else if part \<noteq> ''..'' \<or> (\<not> rooted \<and> new_comps = [])
              \<or> (new_comps \<noteq> [] \<and> last new_comps = ''..'')
           then norm_comps rooted (new_comps @ [part]) parts
      else if new_comps \<noteq> [] then norm_comps rooted (butlast new_comps) parts
      else norm_comps rooted new_comps parts)"

definition os_path_normpath :: "string \<Rightarrow> string" where
  "os_path_normpath p =
     (if p = [] then ''.''
      else
        let initial_slashes = path_root p;
            comps = norm_comps (initial_slashes \<noteq> []) [] (split_on CHR ''/'' p);
            q = initial_slashes @ join_str ''/'' comps
        in if q = [] then ''.'' else q)"

definition os_path_abspath :: "string \<Rightarrow> string \<Rightarrow> string" where
  "os_path_abspath cwd p =
     os_path_normpath (if prefix ''/'' p then p else os_path_join cwd p)"

definition str_int :: "int \<Rightarrow> string" where
  "str_int i = (if i < 0 then ''-'' @ str_nat (nat (- i)) else str_nat (nat i))"

definition nl :: string where
  "nl = [CHR 0x0A]"

definition quote :: string where
  "quote = [CHR 0x27]"

section \<open>Exceptions, the file system, the environment\<close>

text \<open>
  A raised exception is a value: its class and its message. Every class below is a
  subclass of \<open>Exception\<close>, so \<open>except Exception\<close> and a bare \<open>except\<close> catch it.
\<close>

datatype exn =
    FileNotFoundError string
  | FileExistsError string
  | IsADirectoryError string
  | AttributeError string
  | ValueError string
  | BinasciiError string
  | ConversionError string
  | Exception string

fun exn_str :: "exn \<Rightarrow> string" where
  "exn_str (FileNotFoundError m) = m"
| "exn_str (FileExistsError m) = m"
| "exn_str (IsADirectoryError m) = m"
| "exn_str (AttributeError m) = m"
| "exn_str (ValueError m) = m"
| "exn_str (BinasciiError m) = m"
| "exn_str (ConversionError m) = m"
| "exn_str (Exception m) = m"

text \<open>
  The two conversion backends the servers construct:
  \<open>DocumentConverter(pipeline_options=PdfPipelineOptions(do_ocr=b))\<close> and
  \<open>MarkItDown(enable_plugins=b)\<close>.
\<close>

datatype backend = DocumentConverter bool | MarkItDown bool

text \<open>
  The file system maps a path, as the program spells it, to a regular file (its content
  and its creation time in seconds) or to a directory. The world also holds the current
  time, the working directory and a trace of the operations performed so far (file
  written, file removed, directory made, backend run on a path), oldest first. The trace
  is what tells a request that staged and released a file from one that touched nothing.
  Two spellings of one path are two keys: there are no links, and no path is normalised
  unless the program does it. The directories above a path are left implicit, so a write
  fails only when a directory stands at the path itself.
\<close>

datatype node = File string int | Dir

datatype event = Wrote string | Removed string | MadeDir string | Converted backend string

record world =
  files :: "(string \<times> node) list"
  clock :: int
  cwd :: string
  trace :: "event list"

text \<open>
  What the program takes from outside its own code: the base64 decoder, the backends
  (text or exception, from the path and the content of the file at that path) and the
  fresh temporary directory \<open>tempfile.mkdtemp\<close> returned at start-up.
\<close>

record env =
  b64decode :: "string \<Rightarrow> exn + string"
  backend_convert :: "backend \<Rightarrow> string \<Rightarrow> string \<Rightarrow> exn + string"
  temp_base :: string

type_synonym 'a result = "(exn + 'a) \<times> world"

definition lookup :: "world \<Rightarrow> string \<Rightarrow> node option" where
  "lookup w p = map_of (files w) p"

definition os_path_exists :: "world \<Rightarrow> string \<Rightarrow> bool" where
  "os_path_exists w p = (lookup w p \<noteq> None)"

definition os_path_isfile :: "world \<Rightarrow> string \<Rightarrow> bool" where
  "os_path_isfile w p = (case lookup w p of Some (File c t) \<Rightarrow> True | _ \<Rightarrow> False)"

definition os_path_isdir :: "world \<Rightarrow> string \<Rightarrow> bool" where
  "os_path_isdir w p = (lookup w p = Some Dir)"

text \<open>The model has no permission bits: a path that exists is readable.\<close>

definition os_access :: "world \<Rightarrow> string \<Rightarrow> bool" where
  "os_access w p = os_path_exists w p"

text \<open>The size reported for a directory is the file system's business; 4096 stands for it.\<close>

definition os_path_getsize :: "world \<Rightarrow> string \<Rightarrow> exn + int" where
  "os_path_getsize w p =
     (case lookup w p of
        None \<Rightarrow> Inl (FileNotFoundError p)
      | Some Dir \<Rightarrow> Inr 4096
      | Some (File c t) \<Rightarrow> Inr (int (length c)))"

definition os_path_getctime :: "world \<Rightarrow> string \<Rightarrow> exn + int" where
  "os_path_getctime w p =
     (case lookup w p of
        None \<Rightarrow> Inl (FileNotFoundError p)
      | Some Dir \<Rightarrow> Inr 0
      | Some (File c t) \<Rightarrow> Inr t)"

text \<open>\<open>open(p, "w")\<close> or \<open>open(p, "wb")\<close> followed by one \<open>write\<close>.\<close>

definition write_file :: "world \<Rightarrow> string \<Rightarrow> string \<Rightarrow> unit result" where
  "write_file w p data =
     (case lookup w p of
        Some Dir \<Rightarrow> (Inl (IsADirectoryError p), w)
      | _ \<Rightarrow> (Inr (), w\<lparr>files := AList.update p (File data (clock w)) (files w),
                        trace := trace w @ [Wrote p]\<rparr>))"

text \<open>\<open>os.remove\<close> and \<open>Path.unlink\<close>.\<close>

definition os_remove :: "world \<Rightarrow> string \<Rightarrow> unit result" where
  "os_remove w p =
     (case lookup w p of
        None \<Rightarrow> (Inl (FileNotFoundError p), w)
      | Some Dir \<Rightarrow> (Inl (IsADirectoryError p), w)
      | Some (File c t) \<Rightarrow>
          (Inr (), w\<lparr>files := AList.delete p (files w), trace := trace w @ [Removed p]\<rparr>))"

text \<open>
  \<open>os.makedirs(p, exist_ok=True)\<close> and \<open>Path.mkdir(parents=True, exist_ok=True)\<close>; the
  directories above \<open>p\<close> are left implicit.
\<close>

definition os_makedirs :: "world \<Rightarrow> string \<Rightarrow> unit result" where
  "os_makedirs w p =
     (case lookup w p of
        None \<Rightarrow> (Inr (), w\<lparr>files := AList.update p Dir (files w),
                             trace := trace w @ [MadeDir p]\<rparr>)
      | Some Dir \<Rightarrow> (Inr (), w)
      | Some (File c t) \<Rightarrow> (Inl (FileExistsError p), w))"

text \<open>A backend run on a path reads the file there; on anything else it raises.\<close>

definition run_backend :: "env \<Rightarrow> backend \<Rightarrow> world \<Rightarrow> string \<Rightarrow> string result" where
  "run_backend env b w p =
     ((case lookup w p of
         Some (File c t) \<Rightarrow> backend_convert env b p c
       | _ \<Rightarrow> Inl (FileNotFoundError p)),
      w\<lparr>trace := trace w @ [Converted b p]\<rparr>)"

section \<open>improved\_mcp\_server.py\<close>

text \<open>
  The status markers are the bytes of the source file. \<open>ALLOWED_EXTENSIONS\<close> is a Python
  set; the list keeps the order of the source (the order in which \<open>join\<close> prints a set
  is not fixed by Python).
\<close>

definition fail_mark :: string where
  "fail_mark = [CHR 0xC3, CHR 0xA2, CHR 0xC5, CHR 0x92]"

definition ok_mark :: string where
  "ok_mark = [CHR 0xC3, CHR 0xA2, CHR 0xC5, CHR 0x93, CHR 0xE2, CHR 0x80, CHR 0xA6]"

definition ALLOWED_EXTENSIONS :: "string list" where
  "ALLOWED_EXTENSIONS = [''.pdf'', ''.docx'', ''.doc'', ''.txt'', ''.html'', ''.xlsx'', ''.pptx'']"

definition MAX_FILE_SIZE :: int where
  "MAX_FILE_SIZE = 50 * 1024 * 1024"

definition UPLOAD_DIR :: "env \<Rightarrow> string" where
  "UPLOAD_DIR env = os_path_join (temp_base env) ''uploads''"

definition OUTPUT_DIR :: "env \<Rightarrow> string" where
  "OUTPUT_DIR env = os_path_join (temp_base env) ''outputs''"

text \<open>
  \<open>validate_file_content\<close>. \<open>Path(filename)\<close> does not raise on a \<open>str\<close>, so the
  handler of the source's \<open>try\<close> has no branch here.
\<close>

definition validate_file_content :: "string \<Rightarrow> int \<Rightarrow> bool \<times> string" where
  "validate_file_content filename content_size =
     (if py_lower (path_suffix filename) \<notin> set ALLOWED_EXTENSIONS
      then (False, ''File type not supported. Allowed: '' @ join_str '', '' ALLOWED_EXTENSIONS)
      else if content_size > MAX_FILE_SIZE
      then (False, ''File too large. Maximum size: ''
                     @ str_int (MAX_FILE_SIZE div (1024 * 1024)) @ ''MB'')
      else (True, ''Valid''))"

text \<open>
  \<open>save_uploaded_file\<close>; \<open>file_id\<close> is the value of \<open>uuid.uuid4().hex[:8]\<close> drawn for
  this call.
\<close>

definition save_uploaded_file :: "env \<Rightarrow> string \<Rightarrow> world \<Rightarrow> string \<Rightarrow> string \<Rightarrow> string result" where
  "save_uploaded_file env file_id w filename content =
     (let safe_filename = file_id @ ''_'' @ path_name filename;
          file_path = os_path_join (UPLOAD_DIR env) safe_filename
      in case write_file w file_path content of
           (Inl e, w1) \<Rightarrow> (Inl e, w1)
         | (Inr u, w1) \<Rightarrow> (Inr file_path, w1))"

text \<open>
  \<open>convert_file_from_base64\<close>: the \<open>try\<close> block yields the value of \<open>temp_file\<close> when
  it is left, the string returned or the exception raised, and the world; then come the
  \<open>except Exception\<close> handler and the \<open>finally\<close> block.
\<close>

definition convert_file_from_base64_try ::
  "env \<Rightarrow> string \<Rightarrow> world \<Rightarrow> string \<Rightarrow> string \<Rightarrow> string option \<times> (exn + string) \<times> world" where
  "convert_file_from_base64_try env file_id w filename file_content_base64 =
     (case b64decode env file_content_base64 of
        Inl e \<Rightarrow> (None, Inr (fail_mark @ '' Invalid base64 content: '' @ exn_str e), w)
      | Inr file_content \<Rightarrow>
          let (is_valid, message) = validate_file_content filename (int (length file_content))
          in if \<not> is_valid then (None, Inr (fail_mark @ '' Error: '' @ message), w)
             else
               (case save_uploaded_file env file_id w filename file_content of
                  (Inl e, w1) \<Rightarrow> (None, Inl e, w1)
                | (Inr temp_file, w1) \<Rightarrow>
                    (case run_backend env (MarkItDown False) w1 temp_file of
                       (Inl e, w2) \<Rightarrow> (Some temp_file, Inl e, w2)
                     | (Inr text_content, w2) \<Rightarrow>
                         (Some temp_file,
                          Inr (ok_mark @ '' Conversion successful!'' @ nl @ nl
                                 @ ''--- MARKDOWN CONTENT ---'' @ nl @ text_content),
                          w2))))"

definition release_temp_file :: "world \<Rightarrow> string option \<Rightarrow> world" where
  "release_temp_file w temp_file =
     (case temp_file of
        None \<Rightarrow> w
      | Some p \<Rightarrow>
          if p \<noteq> [] \<and> os_path_exists w p
          then (case os_remove w p of (Inl e, w1) \<Rightarrow> w1 | (Inr u, w1) \<Rightarrow> w1)
          else w)"

definition improved_convert_file_from_base64 ::
  "env \<Rightarrow> string \<Rightarrow> world \<Rightarrow> string \<Rightarrow> string \<Rightarrow> string result" where
  "improved_convert_file_from_base64 env file_id w filename file_content_base64 =
     (case convert_file_from_base64_try env file_id w filename file_content_base64 of
        (temp_file, Inl e, w1) \<Rightarrow>
          (Inr (fail_mark @ '' Conversion failed: '' @ exn_str e), release_temp_file w1 temp_file)
      | (temp_file, Inr s, w1) \<Rightarrow> (Inr s, release_temp_file w1 temp_file))"

text \<open>\<open>convert_file_from_path\<close>: the \<open>try\<close> block, then the handler.\<close>

definition convert_file_from_path_try ::
  "env \<Rightarrow> string \<Rightarrow> world \<Rightarrow> string \<Rightarrow> string option \<Rightarrow> string result" where
  "convert_file_from_path_try env file_id w file_path output_name =
     (let abs_path = os_path_abspath (cwd w) file_path in
      if \<not> (prefix ''/tmp/'' abs_path \<or> prefix ''/shared/'' abs_path)
      then (Inr (fail_mark @ '' Access denied: File must be in /tmp/ or /shared/ directory''), w)
      else if \<not> os_path_exists w file_path \<or> \<not> os_access w file_path
      then (Inr (fail_mark @ '' File not accessible: '' @ file_path), w)
      else
        (case os_path_getsize w file_path of
           Inl e \<Rightarrow> (Inl e, w)
         | Inr file_size \<Rightarrow>
             let filename = os_path_basename file_path;
                 (is_valid, message) = validate_file_content filename file_size
             in if \<not> is_valid then (Inr (fail_mark @ '' Error: '' @ message), w)
                else
                  (case run_backend env (MarkItDown False) w file_path of
                     (Inl e, w1) \<Rightarrow> (Inl e, w1)
                   | (Inr text_content, w1) \<Rightarrow>
                       let output_filename =
                             (case output_name of
                                None \<Rightarrow> path_stem file_path @ ''_'' @ file_id @ ''.md''
                              | Some n \<Rightarrow>
                                  if n \<noteq> [] then n @ ''_'' @ file_id @ ''.md''
                                  else path_stem file_path @ ''_'' @ file_id @ ''.md'');
                           output_path = os_path_join (OUTPUT_DIR env) output_filename
                       in (case write_file w1 output_path text_content of
                             (Inl e, w2) \<Rightarrow> (Inl e, w2)
                           | (Inr u, w2) \<Rightarrow>
                               (Inr (ok_mark @ '' Conversion successful! Output saved to: ''
                                       @ output_path), w2)))))"

definition improved_convert_file_from_path ::
  "env \<Rightarrow> string \<Rightarrow> world \<Rightarrow> string \<Rightarrow> string option \<Rightarrow> string result" where
  "improved_convert_file_from_path env file_id w file_path output_name =
     (case convert_file_from_path_try env file_id w file_path output_name of
        (Inl e, w1) \<Rightarrow> (Inr (fail_mark @ '' Conversion failed: '' @ exn_str e), w1)
      | (Inr s, w1) \<Rightarrow> (Inr s, w1))"

text \<open>
  \<open>cleanup_old_files\<close>. The module imports \<open>os\<close> and never \<open>time\<close>, and \<open>os\<close> has
  no attribute \<open>time\<close>: evaluating \<open>os.time.time()\<close> raises \<open>AttributeError\<close>. The
  left operand of the comparison, \<open>os.path.getctime(file_path)\<close>, is evaluated first.
  \<open>os.walk\<close> yields the regular files below its top directory, here in the order of the
  file system's list.
\<close>

definition os_time_time :: "exn + int" where
  "os_time_time =
     Inl (AttributeError (''module '' @ quote @ ''os'' @ quote @ '' has no attribute ''
                            @ quote @ ''time'' @ quote))"

definition os_walk_files :: "world \<Rightarrow> string \<Rightarrow> string list" where
  "os_walk_files w top_dir =
     map fst (filter (\<lambda>(p, n). (case n of File c t \<Rightarrow> prefix (top_dir @ ''/'') p | Dir \<Rightarrow> False))
                     (files w))"

fun cleanup_loop :: "world \<Rightarrow> int \<Rightarrow> string list \<Rightarrow> int result" where
  "cleanup_loop w count [] = (Inr count, w)"
| "cleanup_loop w count (file_path # rest) =
     (case os_path_getctime w file_path of
        Inl e \<Rightarrow> (Inl e, w)
      | Inr created \<Rightarrow>
          (case os_time_time of
             Inl e \<Rightarrow> (Inl e, w)
           | Inr now \<Rightarrow>
               if created < now - 3600
               then (case os_remove w file_path of
                       (Inl e, w1) \<Rightarrow> (Inl e, w1)
                     | (Inr u, w1) \<Rightarrow> cleanup_loop w1 (count + 1) rest)
               else cleanup_loop w count rest))"

definition cleanup_old_files :: "env \<Rightarrow> world \<Rightarrow> string result" where
  "cleanup_old_files env w =
     (case cleanup_loop w 0 (os_walk_files w (OUTPUT_DIR env)) of
        (Inl e, w1) \<Rightarrow> (Inr (fail_mark @ '' Cleanup failed: '' @ exn_str e), w1)
      | (Inr count, w1) \<Rightarrow>
          (Inr (ok_mark @ '' Cleaned up '' @ str_int count @ '' old files''), w1))"

section \<open>server.py\<close>

text \<open>
  \<open>Path(p)\<close> is kept as the string \<open>str(Path(p))\<close>. \<open>with_suffix(".md")\<close> raises on a
  path with an empty name; \<open>a / b\<close> is the path of the joined strings.
\<close>

definition with_suffix_md :: "string \<Rightarrow> exn + string" where
  "with_suffix_md p =
     (if path_name p = []
      then Inl (ValueError (''PurePosixPath('' @ quote @ p @ quote @ '') has an empty name''))
      else Inr (path_root p @ join_str ''/'' (butlast (path_parts p) @ [path_stem p @ ''.md''])))"

definition path_div :: "string \<Rightarrow> string \<Rightarrow> string" where
  "path_div a b = pure_path (os_path_join a b)"

definition convert_file_to_markdown :: "env \<Rightarrow> world \<Rightarrow> string \<Rightarrow> string result" where
  "convert_file_to_markdown env w file_path =
     (let input_path = pure_path file_path in
      if \<not> os_path_exists w input_path
      then (Inl (FileNotFoundError (''File not found: '' @ file_path)), w)
      else
        (case (if py_lower (path_suffix input_path) = ''.pdf''
               then run_backend env (DocumentConverter True) w input_path
               else run_backend env (MarkItDown False) w input_path) of
           (Inl e, w1) \<Rightarrow> (Inl e, w1)
         | (Inr md_text, w1) \<Rightarrow>
             (case with_suffix_md input_path of
                Inl e \<Rightarrow> (Inl e, w1)
              | Inr output_path \<Rightarrow>
                  (case write_file w1 output_path md_text of
                     (Inl e, w2) \<Rightarrow> (Inl e, w2)
                   | (Inr u, w2) \<Rightarrow>
                       (Inr (''File converted successfully. Markdown saved to: '' @ output_path
                               @ nl @ nl @ ''Content:'' @ nl @ md_text), w2)))))"

text \<open>
  \<open>convert_file_content_to_markdown\<close>. The bare \<open>except\<close> around the decoding and the
  binary write writes the content as text instead; an exception of the conversion leaves
  the function before the clean-up, whose own exceptions are ignored.
\<close>

definition stage_content :: "env \<Rightarrow> world \<Rightarrow> string \<Rightarrow> string \<Rightarrow> unit result" where
  "stage_content env w input_path content =
     (case b64decode env content of
        Inl e \<Rightarrow> write_file w input_path content
      | Inr decoded_content \<Rightarrow>
          (case write_file w input_path decoded_content of
             (Inl e, w1) \<Rightarrow> write_file w1 input_path content
           | (Inr u, w1) \<Rightarrow> (Inr (), w1)))"

definition convert_file_content_to_markdown ::
  "env \<Rightarrow> world \<Rightarrow> string \<Rightarrow> string \<Rightarrow> string \<Rightarrow> string result" where
  "convert_file_content_to_markdown env w content filename output_dir =
     (let output_path = pure_path output_dir in
      case os_makedirs w output_path of
        (Inl e, w0) \<Rightarrow> (Inl e, w0)
      | (Inr u, w0) \<Rightarrow>
          let input_path = path_div output_path filename in
          (case stage_content env w0 input_path content of
             (Inl e, w1) \<Rightarrow> (Inl e, w1)
           | (Inr u, w1) \<Rightarrow>
               (case convert_file_to_markdown env w1 input_path of
                  (Inl e, w2) \<Rightarrow> (Inl e, w2)
                | (Inr result, w2) \<Rightarrow>
                    (Inr result,
                     (case os_remove w2 input_path of (Inl e, w3) \<Rightarrow> w3 | (Inr u, w3) \<Rightarrow> w3)))))"

section \<open>mcp\_test.py\<close>



section \<open>git\_server.py\<close>

definition git_fail_mark :: string where
  "git_fail_mark = [CHR 0xE2, CHR 0x9D, CHR 0x8C]"

definition git_ok_mark :: string where
  "git_ok_mark = [CHR 0xE2, CHR 0x9C, CHR 0x85]"

definition git_warn_mark :: string where
  "git_warn_mark = [CHR 0xE2, CHR 0x9A, CHR 0xA0, CHR 0xEF, CHR 0xB8, CHR 0x8F]"

text \<open>
  \<open>os.listdir\<close> of a directory: the names of the entries directly inside it.
  \<open>os.path.splitext(p)[0]\<close>: \<open>p\<close> up to its last dot, when that dot comes after the last
  slash and after a character of the file name that is not a dot.
\<close>

definition os_listdir :: "world \<Rightarrow> string \<Rightarrow> string list" where
  "os_listdir w d =
     (let base = (if suffix ''/'' d then d else d @ ''/'') in
      remdups
        (map (\<lambda>(p, n). drop (length base) p)
           (filter (\<lambda>(p, n). prefix base p \<and> drop (length base) p \<noteq> []
                              \<and> CHR ''/'' \<notin> set (drop (length base) p))
              (files w))))"

definition os_path_splitext_root :: "string \<Rightarrow> string" where
  "os_path_splitext_root p =
     (let sepIndex = rfind_char CHR ''/'' p; dotIndex = rfind_char CHR ''.'' p in
      if dotIndex > sepIndex
         \<and> list_ex (\<lambda>c. c \<noteq> CHR ''.'')
              (take (nat (dotIndex - (sepIndex + 1))) (drop (nat (sepIndex + 1)) p))
      then take (nat dotIndex) p
      else p)"

text \<open>The body of the loop's \<open>try\<close>: convert one file and write its Markdown.\<close>

definition convert_one :: "env \<Rightarrow> world \<Rightarrow> string \<Rightarrow> string \<Rightarrow> string \<Rightarrow> unit result" where
  "convert_one env w file_path output_dir filename =
     (case run_backend env (MarkItDown False) w file_path of
        (Inl e, w1) \<Rightarrow> (Inl e, w1)
      | (Inr text_content, w1) \<Rightarrow>
          write_file w1 (os_path_join output_dir (os_path_splitext_root filename @ ''.md''))
            text_content)"

fun convert_each ::
  "env \<Rightarrow> string \<Rightarrow> string \<Rightarrow> string list \<Rightarrow> world \<times> string list \<times> string list
     \<Rightarrow> world \<times> string list \<times> string list" where
  "convert_each env folder_path output_dir [] acc = acc"
| "convert_each env folder_path output_dir (filename # rest) (w, processed, skipped) =
     (let file_path = os_path_join folder_path filename in
      if os_path_isfile w file_path
      then (case convert_one env w file_path output_dir filename of
              (Inl e, w1) \<Rightarrow>
                convert_each env folder_path output_dir rest
                  (w1, processed, skipped @ [filename @ '' ('' @ exn_str e @ '')''])
            | (Inr u, w1) \<Rightarrow>
                convert_each env folder_path output_dir rest (w1, processed @ [filename], skipped))
      else convert_each env folder_path output_dir rest (w, processed, skipped))"

definition folder_summary :: "string \<Rightarrow> string list \<Rightarrow> string list \<Rightarrow> string" where
  "folder_summary output_dir processed skipped =
     git_ok_mark @ '' Converted '' @ str_nat (length processed)
       @ '' files. Markdown saved to: '' @ output_dir @ nl
       @ (if skipped \<noteq> []
          then git_warn_mark @ '' Skipped '' @ str_nat (length skipped) @ '' files: ''
                 @ join_str '', '' skipped
          else [])"

definition convert_folder :: "env \<Rightarrow> world \<Rightarrow> string \<Rightarrow> string result" where
  "convert_folder env w folder =
     (let folder_path = os_path_abspath (cwd w) folder in
      if \<not> os_path_isdir w folder_path
      then (Inr (git_fail_mark @ '' Path not found or not a folder: '' @ folder_path), w)
      else
        let output_dir = os_path_join folder_path ''markdown_output'' in
        (case os_makedirs w output_dir of
           (Inl e, w1) \<Rightarrow> (Inl e, w1)
         | (Inr u, w1) \<Rightarrow>
             (case convert_each env folder_path output_dir (os_listdir w1 folder_path)
                     (w1, [], []) of
                (w2, processed, skipped) \<Rightarrow>
                  (Inr (folder_summary output_dir processed skipped), w2))))"

section \<open>A reference environment\<close>

text \<open>
  The theorems about the servers hold for every decoder and every backend. For concrete
  runs, \<open>base64.b64decode\<close> (with \<open>validate=False\<close>) is spelled out after
  \<open>binascii.a2b_base64\<close>: characters outside the alphabet are skipped, a padding
  character that completes a quad ends the decoding, and data left over in an unfinished
  quad is an error. A \<open>str\<close> argument with a character outside ASCII is refused first.
\<close>

definition b64_table :: "(char \<times> nat) list" where
  "b64_table =
     [(CHR ''A'', 0), (CHR ''B'', 1), (CHR ''C'', 2), (CHR ''D'', 3),
      (CHR ''E'', 4), (CHR ''F'', 5), (CHR ''G'', 6), (CHR ''H'', 7),
      (CHR ''I'', 8), (CHR ''J'', 9), (CHR ''K'', 10), (CHR ''L'', 11),
      (CHR ''M'', 12), (CHR ''N'', 13), (CHR ''O'', 14), (CHR ''P'', 15),
      (CHR ''Q'', 16), (CHR ''R'', 17), (CHR ''S'', 18), (CHR ''T'', 19),
      (CHR ''U'', 20), (CHR ''V'', 21), (CHR ''W'', 22), (CHR ''X'', 23),
      (CHR ''Y'', 24), (CHR ''Z'', 25), (CHR ''a'', 26), (CHR ''b'', 27),
      (CHR ''c'', 28), (CHR ''d'', 29), (CHR ''e'', 30), (CHR ''f'', 31),
      (CHR ''g'', 32), (CHR ''h'', 33), (CHR ''i'', 34), (CHR ''j'', 35),
      (CHR ''k'', 36), (CHR ''l'', 37), (CHR ''m'', 38), (CHR ''n'', 39),
      (CHR ''o'', 40), (CHR ''p'', 41), (CHR ''q'', 42), (CHR ''r'', 43),
      (CHR ''s'', 44), (CHR ''t'', 45), (CHR ''u'', 46), (CHR ''v'', 47),
      (CHR ''w'', 48), (CHR ''x'', 49), (CHR ''y'', 50), (CHR ''z'', 51),
      (CHR ''0'', 52), (CHR ''1'', 53), (CHR ''2'', 54), (CHR ''3'', 55),
      (CHR ''4'', 56), (CHR ''5'', 57), (CHR ''6'', 58), (CHR ''7'', 59),
      (CHR ''8'', 60), (CHR ''9'', 61), (CHR ''+'', 62), (CHR ''/'', 63)]"

fun a2b_loop :: "nat \<Rightarrow> nat \<Rightarrow> nat \<Rightarrow> string \<Rightarrow> string \<Rightarrow> nat \<times> string" where
  "a2b_loop quad_pos leftchar pads out [] = (quad_pos, out)"
| "a2b_loop quad_pos leftchar pads out (c # cs) =
     (if c = CHR ''=''
      then (if 2 \<le> quad_pos \<and> 4 \<le> quad_pos + (pads + 1) then (0, out)
            else a2b_loop quad_pos leftchar (if 2 \<le> quad_pos then pads + 1 else pads) out cs)
      else
        (case map_of b64_table c of
           None \<Rightarrow> a2b_loop quad_pos leftchar pads out cs
         | Some v \<Rightarrow>
             if quad_pos = 0 then a2b_loop 1 v 0 out cs
             else if quad_pos = 1
             then a2b_loop 2 (v mod 16) 0 (out @ [char_of (leftchar * 4 + v div 16)]) cs
             else if quad_pos = 2
             then a2b_loop 3 (v mod 4) 0 (out @ [char_of (leftchar * 16 + v div 4)]) cs
             else a2b_loop 0 0 0 (out @ [char_of (leftchar * 64 + v)]) cs))"

definition base64_b64decode :: "string \<Rightarrow> exn + string" where
  "base64_b64decode s =
     (if list_ex (\<lambda>c. 128 \<le> (of_char c :: nat)) s
      then Inl (ValueError ''string argument should contain only ASCII characters'')
      else
        (case a2b_loop 0 0 0 [] s of
           (quad_pos, out) \<Rightarrow>
             if quad_pos = 0 then Inr out
             else if quad_pos = 1
             then Inl (BinasciiError
                         (''Invalid base64-encoded string: number of data characters (''
                            @ str_nat (length out div 3 * 4 + 1)
                            @ '') cannot be 1 more than a multiple of 4''))
             else Inl (BinasciiError ''Incorrect padding'')))"

text \<open>
  Backends for concrete runs: the document converter raises unless the content starts as
  a PDF does; the general converter raises on an Office file that is not a zip archive
  and returns the content of any other file as its text. Both look at the path only for
  its suffix.
\<close>

definition ref_backend :: "backend \<Rightarrow> string \<Rightarrow> string \<Rightarrow> exn + string" where
  "ref_backend b p c =
     (case b of
        DocumentConverter do_ocr \<Rightarrow>
          if prefix ''%PDF'' c then Inr c else Inl (ConversionError ''not a PDF document'')
      | MarkItDown enable_plugins \<Rightarrow>
          if py_lower (path_suffix p) \<in> set [''.docx'', ''.xlsx'', ''.pptx'']
             \<and> \<not> prefix ''PK'' c
          then Inl (ConversionError ''File is not a zip file'')
          else Inr c)"

definition ref_env :: env where
  "ref_env = \<lparr>b64decode = base64_b64decode, backend_convert = ref_backend,
              temp_base = ''/tmp/mcp_converter_x''\<rparr>"

definition empty_world :: world where
  "empty_world = \<lparr>files = [], clock = 10000, cwd = ''/srv'', trace = []\<rparr>"

text \<open>
  A second environment for concrete runs. Its backend is as deterministic as the first
  one, but the text it returns starts with the name of the file it was given, as a
  converter that titles its output after the file does.
\<close>

definition titled_backend :: "backend \<Rightarrow> string \<Rightarrow> string \<Rightarrow> exn + string" where
  "titled_backend b p c = Inr (path_name p @ '': '' @ c)"

definition titled_env :: env where
  "titled_env = \<lparr>b64decode = base64_b64decode, backend_convert = titled_backend,
                 temp_base = ''/tmp/mcp_converter_x''\<rparr>"

section \<open>Notions used in the statements\<close>

text \<open>The backends that a trace shows were run, oldest first.\<close>

fun backends_run :: "event list \<Rightarrow> backend list" where
  "backends_run [] = []"
| "backends_run (Converted b p # es) = b # backends_run es"
| "backends_run (e # es) = backends_run es"

text \<open>
  What \<open>uuid.uuid4().hex[:8]\<close> can return: eight lower-case hexadecimal digits. Every
  backend of an environment is a function of the path and the content it reads there;
  it ignores the name a file is staged under when its result is fixed by the content and
  the suffix of the path.
\<close>

definition is_file_id :: "string \<Rightarrow> bool" where
  "is_file_id t = (length t = 8 \<and> list_all (\<lambda>c. c \<in> set ''0123456789abcdef'') t)"

definition backend_ignores_staged_name :: "env \<Rightarrow> bool" where
  "backend_ignores_staged_name env =
     (\<forall>b p q c. path_suffix p = path_suffix q \<longrightarrow>
                backend_convert env b p c = backend_convert env b q c)"

text \<open>
  For the folder conversion, all of it read in the world \<open>w\<close> that the loop starts in.
  \<open>markdown_path\<close> is where the Markdown of a file of the folder goes. \<open>file_outcome\<close>
  is what happens to one file taken on its own: the text that the backend returns for it,
  when the backend returns and that text can be written at the file's Markdown path, and
  the exception raised otherwise. \<open>converted_files\<close> are the regular files of the
  listing whose outcome is a text, \<open>skipped_files\<close> the entries \<open>name (error)\<close> of
  those whose outcome is an exception, \<open>folder_events\<close> the backend runs and the writes
  of the listing in its order. \<open>outputs_written\<close> says of a later world that at the
  Markdown path of each converted file stands the text of the last converted file of the
  listing that has this Markdown path.
\<close>

definition markdown_path :: "string \<Rightarrow> string \<Rightarrow> string" where
  "markdown_path folder_path filename =
     os_path_join (os_path_join folder_path ''markdown_output'')
       (os_path_splitext_root filename @ ''.md'')"

definition file_outcome :: "env \<Rightarrow> world \<Rightarrow> string \<Rightarrow> string \<Rightarrow> exn + string" where
  "file_outcome env w folder_path filename =
     (case fst (run_backend env (MarkItDown False) w (os_path_join folder_path filename)) of
        Inl e \<Rightarrow> Inl e
      | Inr text_content \<Rightarrow>
          (case fst (write_file w (markdown_path folder_path filename) text_content) of
             Inl e \<Rightarrow> Inl e
           | Inr u \<Rightarrow> Inr text_content))"

definition converted_files :: "env \<Rightarrow> world \<Rightarrow> string \<Rightarrow> string list \<Rightarrow> string list" where
  "converted_files env w folder_path names =
     filter (\<lambda>n. os_path_isfile w (os_path_join folder_path n)
                 \<and> (case file_outcome env w folder_path n of Inl e \<Rightarrow> False | Inr t \<Rightarrow> True))
            names"

definition skipped_files :: "env \<Rightarrow> world \<Rightarrow> string \<Rightarrow> string list \<Rightarrow> string list" where
  "skipped_files env w folder_path names =
     concat (map (\<lambda>n. if os_path_isfile w (os_path_join folder_path n)
                       then (case file_outcome env w folder_path n of
                               Inl e \<Rightarrow> [n @ '' ('' @ exn_str e @ '')'']
                             | Inr t \<Rightarrow> [])
                       else [])
                 names)"

definition folder_events :: "env \<Rightarrow> world \<Rightarrow> string \<Rightarrow> string list \<Rightarrow> event list" where
  "folder_events env w folder_path names =
     concat (map (\<lambda>n. if os_path_isfile w (os_path_join folder_path n)
                       then Converted (MarkItDown False) (os_path_join folder_path n)
                              # (case file_outcome env w folder_path n of
                                   Inl e \<Rightarrow> []
                                 | Inr t \<Rightarrow> [Wrote (markdown_path folder_path n)])
                       else [])
                 names)"

definition outputs_written :: "env \<Rightarrow> world \<Rightarrow> string \<Rightarrow> string list \<Rightarrow> world \<Rightarrow> bool" where
  "outputs_written env w folder_path names w' =
     (\<forall>n \<in> set (converted_files env w folder_path names).
        \<exists>t. file_outcome env w folder_path
               (last (filter (\<lambda>m. markdown_path folder_path m = markdown_path folder_path n)
                        (converted_files env w folder_path names))) = Inr t
             \<and> lookup w' (markdown_path folder_path n) = Some (File t (clock w)))"

text \<open>
  What the loop keeps of the world it started in: the entries directly inside the folder
  and which paths are directories.
\<close>

definition same_inputs :: "string \<Rightarrow> world \<Rightarrow> world \<Rightarrow> bool" where
  "same_inputs folder_path w w' =
     ((\<forall>n. CHR ''/'' \<notin> set n \<longrightarrow>
            lookup w' (os_path_join folder_path n) = lookup w (os_path_join folder_path n))
      \<and> (\<forall>q. (lookup w' q = Some Dir) = (lookup w q = Some Dir)))"

section \<open>Worlds and payloads for concrete runs\<close>

text \<open>
  In \<open>sweep_world\<close> the clock stands at 10000 seconds and the three artifacts of the
  output directory were created 1800, 3660 and 7200 seconds before: 30, 61 and 120
  minutes. In \<open>docs_world\<close> the folder \<open>/srv/docs\<close> holds two text files, an HTML
  file with the stem of one of them, and a \<open>.docx\<close> file that is not a zip archive.
  \<open>staged_docx_world\<close> is the empty world after \<open>b.docx\<close> has been staged under the
  file id \<open>0a1b2c3d\<close>; in \<open>blocked_world\<close> a directory stands where \<open>note.txt\<close>
  would be staged under that file id; \<open>tmp_docx_world\<close> holds under \<open>/tmp\<close> a
  \<open>.docx\<close> file that is not a zip archive. \<open>big_payload\<close> is the base64 text of
  52428801 zero bytes, one byte more than 50 MB.
\<close>

definition passwd_world :: world where
  "passwd_world =
     \<lparr>files = [(''/etc/passwd'', File ''root:x:0:0'' 0)], clock = 10000, cwd = ''/srv'',
      trace = []\<rparr>"

definition pdf_world :: world where
  "pdf_world =
     \<lparr>files = [(''/tmp/Report.PDF'', File ''%PDF-1.7'' 0)], clock = 10000, cwd = ''/srv'',
      trace = []\<rparr>"


definition sweep_world :: world where
  "sweep_world =
     \<lparr>files = [(''/tmp/mcp_converter_x/outputs/a_1111aaaa.md'', File ''thirty minutes'' 8200),
               (''/tmp/mcp_converter_x/outputs/b_2222bbbb.md'', File ''sixty-one minutes'' 6340),
               (''/tmp/mcp_converter_x/outputs/c_3333cccc.md'', File ''two hours'' 2800)],
      clock = 10000, cwd = ''/srv'', trace = []\<rparr>"

definition docs_world :: world where
  "docs_world =
     \<lparr>files = [(''/srv/docs'', Dir),
               (''/srv/docs/a.txt'', File ''alpha'' 0),
               (''/srv/docs/b.docx'', File ''not a zip'' 0),
               (''/srv/docs/c.txt'', File ''gamma'' 0),
               (''/srv/docs/c.html'', File ''<p>gamma</p>'' 0)],
      clock = 10000, cwd = ''/srv'', trace = []\<rparr>"




definition big_payload :: string where
  "big_payload = replicate 69905068 CHR ''A''"

section \<open>Properties\<close>

subsection \<open>The library model on examples\<close>

text \<open>
  The values below are what Python 3.11 returns for \<open>PurePosixPath\<close> (string, name,
  suffix, stem), \<open>with_suffix\<close>, the \<open>/\<close> operator, \<open>os.path.splitext\<close>,
  \<open>normpath\<close>, \<open>join\<close>, \<open>basename\<close> and \<open>base64.b64decode\<close>.
\<close>

lemma check_pathlib:
  "map (\<lambda>s. (pure_path s, path_name s, path_suffix s, path_stem s))
  [''/a/b/c.tar.gz'', ''.pdf'', ''a.'', ''a.PDF'', ''..pdf'', ''/tmp//a/./b/'', [], ''/'', ''a/.'', ''..'', ''note.exe'', ''x'']
  = [(''/a/b/c.tar.gz'', ''c.tar.gz'', ''.gz'', ''c.tar''),
     (''.pdf'', ''.pdf'', [], ''.pdf''),
     (''a.'', ''a.'', [], ''a.''),
     (''a.PDF'', ''a.PDF'', ''.PDF'', ''a''),
     (''..pdf'', ''..pdf'', ''.pdf'', ''.''),
     (''/tmp/a/b'', ''b'', [], ''b''),
     (''.'', [], [], []),
     (''/'', [], [], []),
     (''a'', ''a'', [], ''a''),
     (''..'', ''..'', [], ''..''),
     (''note.exe'', ''note.exe'', ''.exe'', ''note''),
     (''x'', ''x'', [], ''x'')]"
  by code_simp

lemma check_with_suffix:
  "map with_suffix_md [''/tmp/a.tar.gz'', ''/tmp/a'', ''/''] = [Inr ''/tmp/a.tar.md'', Inr ''/tmp/a.md'', Inl (ValueError (''PurePosixPath('' @ quote @ ''/'' @ quote @ '') has an empty name''))]"
  by code_simp

lemma check_path_div:
  "[path_div ''/tmp'' ''a.txt'', path_div ''/tmp'' [], path_div ''.'' ''a'', path_div ''/tmp'' ''/etc/x'', path_div ''/tmp'' ''../x'']
  = [''/tmp/a.txt'', ''/tmp'', ''a'', ''/etc/x'', ''/tmp/../x'']"
  by code_simp

lemma check_splitext:
  "map os_path_splitext_root [''.bashrc'', ''a.b.c'', ''..a'', ''a'', ''a.'', ''dir.d/x''] = [''.bashrc'', ''a.b'', ''..a'', ''a'', ''a'', ''dir.d/x'']"
  by code_simp

lemma check_normpath:
  "map os_path_normpath [''/tmp/../etc/passwd'', ''//tmp/x'', ''///tmp/x'', ''a/../../b'', ''/..'', [], ''.'', ''/tmp/'']
  = [''/etc/passwd'', ''//tmp/x'', ''/tmp/x'', ''../b'', ''/'', ''.'', ''.'', ''/tmp'']"
  by code_simp

lemma check_join:
  "[os_path_join ''/srv'' ''docs'', os_path_join ''/srv/'' ''docs'', os_path_join [] ''docs'', os_path_join ''/srv'' ''/abs'', os_path_join ''/srv'' []]
  = [''/srv/docs'', ''/srv/docs'', ''docs'', ''/abs'', ''/srv/'']"
  by code_simp

lemma check_basename:
  "map os_path_basename [''/tmp/a.txt'', ''/tmp/'', ''a''] = [''a.txt'', [], ''a'']"
  by code_simp

lemma check_b64decode:
  "map base64_b64decode [''aGVsbG8='', ''aGk='', ''a=Gk='', ''aGk=zzzz'', ''!!'', [], ''bm90IGEgcGRm'']
  = [Inr ''hello'', Inr ''hi'', Inr ''hi'', Inr ''hi'', Inr [], Inr [], Inr ''not a pdf'']"
  by code_simp

lemma check_b64decode_padding:
  "base64_b64decode ''aGVsbG8'' = Inl (BinasciiError ''Incorrect padding'')"
  by code_simp

lemma check_b64decode_ascii:
  "base64_b64decode [CHR 0xC3, CHR 0xA9] = Inl (ValueError ''string argument should contain only ASCII characters'')"
  by code_simp

subsection \<open>Validation\<close>


lemma validate_unsupported:
  "py_lower (path_suffix filename) \<notin> set ALLOWED_EXTENSIONS \<Longrightarrow>
   validate_file_content filename n =
     (False, ''File type not supported. Allowed: '' @ join_str '', '' ALLOWED_EXTENSIONS)"
  by (simp add: validate_file_content_def)


lemma limit_str: "str_int (MAX_FILE_SIZE div (1024 * 1024)) = ''50''"
  by (simp add: MAX_FILE_SIZE_def str_int_def str_nat.simps digit_char_def)

lemma validate_too_large:
  "py_lower (path_suffix filename) \<in> set ALLOWED_EXTENSIONS \<Longrightarrow> MAX_FILE_SIZE < n \<Longrightarrow>
   validate_file_content filename n = (False, ''File too large. Maximum size: 50MB'')"
  using limit_str by (simp add: validate_file_content_def)

subsection \<open>The reference decoder on a long payload\<close>

lemma b64_table_A: "map_of b64_table CHR ''A'' = Some 0"
  by (simp add: b64_table_def)

lemma a2b_loop_quad_A:
  "a2b_loop 0 0 0 out (CHR ''A'' # CHR ''A'' # CHR ''A'' # CHR ''A'' # rest)
     = a2b_loop 0 0 0 (out @ [char_of (0::nat), char_of (0::nat), char_of (0::nat)]) rest"
  by (simp add: b64_table_A)

lemma a2b_loop_replicate_A:
  "a2b_loop 0 0 0 out (replicate (4 * k) CHR ''A'')
     = (0, out @ replicate (3 * k) (char_of (0::nat)))"
proof (induction k arbitrary: out)
  case 0
  show ?case by simp
next
  case (Suc k)
  have "replicate (4 * Suc k) CHR ''A''
          = CHR ''A'' # CHR ''A'' # CHR ''A'' # CHR ''A'' # replicate (4 * k) CHR ''A''"
    by (simp add: numeral_eq_Suc)
  moreover have "replicate (3 * Suc k) (char_of (0::nat))
          = [char_of (0::nat), char_of (0::nat), char_of (0::nat)]
              @ replicate (3 * k) (char_of (0::nat))"
    by (simp add: numeral_eq_Suc)
  ultimately show ?case
    by (simp only: a2b_loop_quad_A Suc.IH append_assoc)
qed

lemma b64decode_replicate_A:
  "base64_b64decode (replicate (4 * k) CHR ''A'') = Inr (replicate (3 * k) (char_of (0::nat)))"
proof -
  have "\<not> list_ex (\<lambda>c. 128 \<le> (of_char c :: nat)) (replicate (4 * k) CHR ''A'')"
    by (simp add: list_ex_iff)
  then show ?thesis
    by (simp add: base64_b64decode_def a2b_loop_replicate_A)
qed

lemma big_payload_decodes:
  "b64decode ref_env big_payload = Inr (replicate 52428801 (char_of (0::nat)))"
  using b64decode_replicate_A [of 17476267] by (simp add: big_payload_def ref_env_def)

lemma big_payload_too_large:
  "MAX_FILE_SIZE < int (length (replicate 52428801 (char_of (0::nat))))"
  by (simp add: MAX_FILE_SIZE_def)

lemma suffix_big_exe: "py_lower (path_suffix ''big.exe'') \<notin> set ALLOWED_EXTENSIONS"
  by code_simp

lemma suffix_big_txt: "py_lower (path_suffix ''big.txt'') \<in> set ALLOWED_EXTENSIONS"
  by code_simp


lemma short_payload_fails:
  "b64decode ref_env ''a'' =
     Inl (BinasciiError ''Invalid base64-encoded string: number of data characters (1) cannot be 1 more than a multiple of 4'')"
  by code_simp

lemma backends_run_append: "backends_run (xs @ ys) = backends_run xs @ backends_run ys"
  by (induction xs rule: backends_run.induct) auto

subsection \<open>Failures at the boundary of the tools\<close>



















subsection \<open>Paths outside the allowed roots\<close>

text \<open>
  Claim C4. When the absolute, normalised form of the path starts neither with \<open>/tmp/\<close>
  nor with \<open>/shared/\<close>, \<open>convert_file_from_path\<close> returns the access-denied failure and
  the world it leaves is the world it found: no file written or removed, and no backend
  run, so the content of the file is never read.
\<close>

theorem C4_access_denied_outside_roots:
  assumes "\<not> prefix ''/tmp/'' (os_path_abspath (cwd w) file_path)"
      and "\<not> prefix ''/shared/'' (os_path_abspath (cwd w) file_path)"
  shows "improved_convert_file_from_path env file_id w file_path output_name =
           (Inr (fail_mark @ '' Access denied: File must be in /tmp/ or /shared/ directory''), w)"
  using assms by (simp add: improved_convert_file_from_path_def convert_file_from_path_try_def)

theorem C4_access_denied_outside_roots_witness:
  "\<not> prefix ''/tmp/'' (os_path_abspath (cwd passwd_world) ''/tmp/../etc/passwd'') \<and>
   \<not> prefix ''/shared/'' (os_path_abspath (cwd passwd_world) ''/tmp/../etc/passwd'') \<and>
   improved_convert_file_from_path ref_env ''0a1b2c3d'' passwd_world ''/tmp/../etc/passwd'' None =
     (Inr (fail_mark @ '' Access denied: File must be in /tmp/ or /shared/ directory''),
      passwd_world)"
proof -
  have a: "os_path_abspath (cwd passwd_world) ''/tmp/../etc/passwd'' = ''/etc/passwd''"
    by code_simp
  have b: "\<not> prefix ''/tmp/'' (os_path_abspath (cwd passwd_world) ''/tmp/../etc/passwd'')"
    and c: "\<not> prefix ''/shared/'' (os_path_abspath (cwd passwd_world) ''/tmp/../etc/passwd'')"
    unfolding a by simp_all
  from b c C4_access_denied_outside_roots [OF b c] show ?thesis by simp
qed

subsection \<open>Payloads that are not base64\<close>

text \<open>
  Claim C5, as stated, fails: \<open>convert_file_content_to_markdown\<close> of server.py, given the
  payload \<open>hello\<close> (which the decoder refuses), writes it as text to the staged file
  \<open>/tmp/note.txt\<close>, converts it and reports success.
\<close>

theorem C5_counterexample:
  "b64decode ref_env ''hello'' =
     Inl (BinasciiError ''Invalid base64-encoded string: number of data characters (5) cannot be 1 more than a multiple of 4'')
   \<and> convert_file_content_to_markdown ref_env empty_world ''hello'' ''note.txt'' ''/tmp'' =
     (Inr (''File converted successfully. Markdown saved to: /tmp/note.md'' @ nl @ nl
             @ ''Content:'' @ nl @ ''hello''),
      \<lparr>files = [(''/tmp'', Dir), (''/tmp/note.md'', File ''hello'' 10000)], clock = 10000,
        cwd = ''/srv'',
        trace = [MadeDir ''/tmp'', Wrote ''/tmp/note.txt'',
                 Converted (MarkItDown False) ''/tmp/note.txt'', Wrote ''/tmp/note.md'',
                 Removed ''/tmp/note.txt'']\<rparr>)"
  by code_simp

text \<open>
  Claim C5, amended. When the payload fails base64 decoding,
  \<open>convert_file_from_base64\<close> of improved\_mcp\_server.py returns the invalid-base64
  failure at once and leaves the world as it found it (nothing staged, nothing written or
  removed, no backend run); the staging step of \<open>convert_file_content_to_markdown\<close> of
  server.py instead writes the payload as text.
\<close>

theorem C5_invalid_base64_rejected:
  assumes "b64decode env payload = Inl e"
  shows "improved_convert_file_from_base64 env file_id w filename payload =
           (Inr (fail_mark @ '' Invalid base64 content: '' @ exn_str e), w)
         \<and> stage_content env w input_path payload = write_file w input_path payload"
  using assms
  by (simp add: improved_convert_file_from_base64_def convert_file_from_base64_try_def
                release_temp_file_def stage_content_def)

theorem C5_invalid_base64_rejected_witness:
  "improved_convert_file_from_base64 ref_env ''0a1b2c3d'' empty_world ''note.txt'' ''a'' =
     (Inr (fail_mark @ '' Invalid base64 content: ''
             @ ''Invalid base64-encoded string: number of data characters (1) cannot be 1 more than a multiple of 4''),
      empty_world)
   \<and> stage_content ref_env empty_world ''/tmp/note.txt'' ''a''
       = write_file empty_world ''/tmp/note.txt'' ''a''"
  using C5_invalid_base64_rejected [OF short_payload_fails] by simp

subsection \<open>Unsupported file types\<close>




subsection \<open>Oversized payloads\<close>

text \<open>
  Claim C7, as stated, fails: \<open>validate_file_content\<close> checks the extension before the
  size. A payload of 52428801 bytes (one more than 50 MB) under the name \<open>big.exe\<close> is
  rejected with the unsupported-type message, which does not report the limit.
\<close>

theorem C7_counterexample:
  "b64decode ref_env big_payload = Inr (replicate 52428801 (char_of (0::nat)))
   \<and> MAX_FILE_SIZE < int (length (replicate 52428801 (char_of (0::nat))))
   \<and> improved_convert_file_from_base64 ref_env ''0a1b2c3d'' empty_world ''big.exe'' big_payload =
       (Inr (fail_mark @ '' Error: File type not supported. Allowed: .pdf, .docx, .doc, .txt, .html, .xlsx, .pptx''),
        empty_world)"
proof -
  have "improved_convert_file_from_base64 ref_env ''0a1b2c3d'' empty_world ''big.exe'' big_payload =
       (Inr (fail_mark @ '' Error: File type not supported. Allowed: .pdf, .docx, .doc, .txt, .html, .xlsx, .pptx''),
        empty_world)"
    by (simp add: improved_convert_file_from_base64_def convert_file_from_base64_try_def
                  release_temp_file_def big_payload_decodes validate_unsupported [OF suffix_big_exe])
       (simp add: ALLOWED_EXTENSIONS_def)
  with big_payload_decodes big_payload_too_large show ?thesis by blast
qed

text \<open>
  Claim C7, amended. For every payload that decodes to more than \<open>MAX_FILE_SIZE\<close> bytes,
  \<open>convert_file_from_base64\<close> returns a validation failure and leaves the world as it
  found it: nothing is staged. When the extension of the file name is accepted, the
  message reports the limit, 50MB.
\<close>

theorem C7_oversized_payload_rejected:
  assumes "b64decode env payload = Inr c" and "MAX_FILE_SIZE < int (length c)"
  shows "\<exists>m. improved_convert_file_from_base64 env file_id w filename payload
                = (Inr (fail_mark @ '' Error: '' @ m), w)
            \<and> (py_lower (path_suffix filename) \<in> set ALLOWED_EXTENSIONS \<longrightarrow>
                 m = ''File too large. Maximum size: 50MB'')"
  using assms
  by (cases "py_lower (path_suffix filename) \<in> set ALLOWED_EXTENSIONS")
     (simp_all add: validate_unsupported validate_too_large improved_convert_file_from_base64_def
                    convert_file_from_base64_try_def release_temp_file_def)

theorem C7_oversized_payload_rejected_witness:
  "b64decode ref_env big_payload = Inr (replicate 52428801 (char_of (0::nat)))
   \<and> MAX_FILE_SIZE < int (length (replicate 52428801 (char_of (0::nat))))
   \<and> py_lower (path_suffix ''big.txt'') \<in> set ALLOWED_EXTENSIONS
   \<and> improved_convert_file_from_base64 ref_env ''0a1b2c3d'' empty_world ''big.txt'' big_payload
        = (Inr (fail_mark @ '' Error: '' @ ''File too large. Maximum size: 50MB''), empty_world)"
  using C7_oversized_payload_rejected [OF big_payload_decodes big_payload_too_large,
          of "''0a1b2c3d''" empty_world "''big.txt''"]
        big_payload_decodes big_payload_too_large suffix_big_txt
  by auto

subsection \<open>Backend selection\<close>

text \<open>
  Claim C8. \<open>convert_file_to_markdown\<close> of server.py, on a path that exists, runs exactly
  one backend, and which one depends on the extension alone: the document converter with
  OCR when the lower-cased suffix is \<open>.pdf\<close>, the general converter otherwise.
\<close>

theorem C8_backend_selected_by_extension:
  assumes "os_path_exists w (pure_path file_path)"
  shows "backends_run (drop (length (trace w))
                         (trace (snd (convert_file_to_markdown env w file_path))))
         = [if py_lower (path_suffix (pure_path file_path)) = ''.pdf''
            then DocumentConverter True else MarkItDown False]"
  using assms
  by (auto simp add: convert_file_to_markdown_def Let_def run_backend_def write_file_def
           split: sum.splits prod.splits option.splits node.splits)

theorem C8_backend_selected_by_extension_witness:
  "os_path_exists pdf_world (pure_path ''/tmp/Report.PDF'')
   \<and> py_lower (path_suffix (pure_path ''/tmp/Report.PDF'')) = ''.pdf''
   \<and> backends_run (drop (length (trace pdf_world))
                      (trace (snd (convert_file_to_markdown ref_env pdf_world ''/tmp/Report.PDF''))))
         = [DocumentConverter True]"
proof -
  have a: "os_path_exists pdf_world (pure_path ''/tmp/Report.PDF'')" by code_simp
  have b: "py_lower (path_suffix (pure_path ''/tmp/Report.PDF'')) = ''.pdf''" by code_simp
  from C8_backend_selected_by_extension [OF a, of ref_env] a b show ?thesis by simp
qed

subsection \<open>Paths, names and suffixes\<close>

lemma trans_sym: "a = c \<Longrightarrow> b = c \<Longrightarrow> a = b" by simp

lemma split_on_not_Nil [simp]: "split_on s xs \<noteq> []"
  by (induction xs) (auto split: list.splits)

lemma split_on_no_sep: "s \<notin> set x \<Longrightarrow> split_on s x = [x]"
  by (induction x) auto

lemma split_on_append_sep: "split_on s (a @ s # b) = split_on s a @ split_on s b"
  by (induction a) (auto split: list.splits)

lemma split_on_parts_no_sep: "x \<in> set (split_on s xs) \<Longrightarrow> s \<notin> set x"
  by (induction xs arbitrary: x) (auto split: if_splits list.splits)

lemma path_name_no_slash: "CHR ''/'' \<notin> set (path_name p)"
proof (cases "rev (path_parts p)")
  case Nil
  then show ?thesis by (simp add: path_name_def)
next
  case (Cons x xs)
  then have "x \<in> set (path_parts p)" by (metis list.set_intros(1) set_rev)
  then have "x \<in> set (split_on CHR ''/'' p)" by (simp add: path_parts_def)
  then show ?thesis using Cons by (simp add: path_name_def split_on_parts_no_sep)
qed

lemma path_name_append:
  assumes "CHR ''/'' \<notin> set x" and "x \<noteq> []" and "x \<noteq> ''.''"
  shows "path_name (d @ ''/'' @ x) = x"
  using assms
  by (simp add: path_name_def path_parts_def split_on_append_sep split_on_no_sep)

lemma rfind_char_bounds: "- 1 \<le> rfind_char c xs \<and> rfind_char c xs < int (length xs)"
  by (induction xs) (auto simp: Let_def)

lemma rfind_char_append:
  "c \<notin> set a \<Longrightarrow>
   rfind_char c (a @ b) = (if 0 \<le> rfind_char c b then int (length a) + rfind_char c b else - 1)"
proof (induction a)
  case Nil
  show ?case using rfind_char_bounds [of c b] by auto
next
  case (Cons x a)
  then show ?case using rfind_char_bounds [of c b] by (auto simp: Let_def)
qed

lemma name_suffix_prepend:
  assumes "CHR ''.'' \<notin> set a" and "a \<noteq> []"
  shows "name_suffix (a @ n) =
           (let j = rfind_char CHR ''.'' n in
            if 0 \<le> j \<and> j < int (length n) - 1 then drop (nat j) n else [])"
proof -
  define j where "j = rfind_char CHR ''.'' n"
  have len: "0 < int (length a)" using assms(2) by simp
  have r: "rfind_char CHR ''.'' (a @ n) = (if 0 \<le> j then int (length a) + j else - 1)"
    unfolding j_def by (rule rfind_char_append [OF assms(1)])
  show ?thesis
  proof (cases "0 \<le> j \<and> j < int (length n) - 1")
    case True
    then have e: "nat (int (length a) + j) = length a + nat j" by (simp add: nat_add_distrib)
    have p1: "0 < int (length a) + j" using True len by linarith
    have p2: "int (length a) + j < int (length (a @ n)) - 1" using True by simp
    note p = p1 p2
    have "name_suffix (a @ n) = drop (nat (int (length a) + j)) (a @ n)"
      unfolding name_suffix_def r Let_def using True p by simp
    also have "\<dots> = drop (nat j) n" unfolding e by simp
    finally show ?thesis using True unfolding Let_def j_def [symmetric] by simp
  next
    case False
    have "name_suffix (a @ n) = []"
    proof (cases "0 \<le> j")
      case True
      with False have "\<not> int (length a) + j < int (length (a @ n)) - 1" by simp
      then show ?thesis unfolding name_suffix_def r Let_def using True by simp
    next
      case False
      then show ?thesis unfolding name_suffix_def r Let_def by simp
    qed
    moreover from False
    have "(if 0 \<le> j \<and> j < int (length n) - 1 then drop (nat j) n else []) = []"
      by (rule if_not_P)
    ultimately show ?thesis unfolding Let_def j_def [symmetric] by (rule trans_sym)
  qed
qed

lemma is_file_id_chars:
  assumes "is_file_id t"
  shows "CHR ''.'' \<notin> set t" and "CHR ''/'' \<notin> set t" and "t \<noteq> []" and "CHR ''_'' \<notin> set t"
proof -
  have a: "\<forall>c \<in> set t. c \<in> set ''0123456789abcdef''"
    using assms unfolding is_file_id_def list_all_iff by blast
  have b: "CHR ''.'' \<notin> set ''0123456789abcdef''" "CHR ''/'' \<notin> set ''0123456789abcdef''"
          "CHR ''_'' \<notin> set ''0123456789abcdef''"
    by simp_all
  show "CHR ''.'' \<notin> set t" using a b(1) by blast
  show "CHR ''/'' \<notin> set t" using a b(2) by blast
  show "CHR ''_'' \<notin> set t" using a b(3) by blast
  have "length t = 8" using assms unfolding is_file_id_def by blast
  then show "t \<noteq> []" by auto
qed

lemma UPLOAD_DIR_join:
  assumes "\<not> prefix ''/'' x"
  shows "os_path_join (UPLOAD_DIR env) x = UPLOAD_DIR env @ ''/'' @ x"
proof -
  have u: "UPLOAD_DIR env = temp_base env @ ''uploads'' \<or> UPLOAD_DIR env = temp_base env @ ''/uploads''"
    by (simp add: UPLOAD_DIR_def os_path_join_def)
  then have "UPLOAD_DIR env \<noteq> []" by auto
  moreover have "\<not> suffix ''/'' (UPLOAD_DIR env)"
    using u by (auto simp add: suffix_def append_eq_append_conv2 append_eq_Cons_conv Cons_eq_append_conv)
  ultimately show ?thesis using assms by (simp add: os_path_join_def)
qed

lemma staged_path_eq:
  assumes "is_file_id t"
  shows "os_path_join (UPLOAD_DIR env) (t @ ''_'' @ path_name filename)
           = UPLOAD_DIR env @ ''/'' @ t @ ''_'' @ path_name filename"
proof -
  obtain c cs where t: "t = c # cs" using is_file_id_chars(3) [OF assms] by (cases t) auto
  have "c \<noteq> CHR ''/''" using is_file_id_chars(2) [OF assms] t by auto
  then have "\<not> prefix ''/'' (t @ ''_'' @ path_name filename)" using t by simp
  then show ?thesis by (rule UPLOAD_DIR_join)
qed

lemma staged_suffix:
  assumes "is_file_id t"
  shows "path_suffix (UPLOAD_DIR env @ ''/'' @ t @ ''_'' @ path_name filename)
          = (let j = rfind_char CHR ''.'' (path_name filename) in
             if 0 \<le> j \<and> j < int (length (path_name filename)) - 1
             then drop (nat j) (path_name filename) else [])"
proof -
  let ?n = "path_name filename"
  let ?x = "t @ ''_'' @ ?n"
  obtain c cs where t: "t = c # cs" using is_file_id_chars(3) [OF assms] by (cases t) auto
  have 1: "CHR ''/'' \<notin> set ?x"
    using is_file_id_chars(2) [OF assms] path_name_no_slash [of filename] by simp
  have 2: "?x \<noteq> []" using t by simp
  have 3: "?x \<noteq> ''.''" using t by simp
  have n: "path_name (UPLOAD_DIR env @ ''/'' @ ?x) = ?x" using 1 2 3 by (rule path_name_append)
  have 4: "CHR ''.'' \<notin> set (t @ ''_'')" using is_file_id_chars(1) [OF assms] by simp
  have 5: "t @ ''_'' \<noteq> []" by simp
  have "name_suffix ((t @ ''_'') @ ?n) =
          (let j = rfind_char CHR ''.'' ?n in
           if 0 \<le> j \<and> j < int (length ?n) - 1 then drop (nat j) ?n else [])"
    using 4 5 by (rule name_suffix_prepend)
  then show ?thesis unfolding path_suffix_def n by simp
qed

lemma staged_paths_eq_iff:
  assumes "is_file_id t1" and "is_file_id t2"
  shows "(UPLOAD_DIR env @ ''/'' @ t1 @ ''_'' @ n1 = UPLOAD_DIR env @ ''/'' @ t2 @ ''_'' @ n2)
           = (t1 = t2 \<and> n1 = n2)"
proof -
  have "length t1 = length t2" using assms unfolding is_file_id_def by simp
  then show ?thesis by auto
qed

lemma lookup_write_file:
  assumes "write_file w p d = (Inr u, w1)"
  shows "lookup w1 q = (if q = p then Some (File d (clock w)) else lookup w q)"
  using assms
  by (auto simp add: write_file_def lookup_def update_conv' split: option.splits node.splits)

lemma save_uploaded_file_path:
  assumes "is_file_id t" and "save_uploaded_file env t w filename c = (Inr p, w1)"
  shows "p = UPLOAD_DIR env @ ''/'' @ t @ ''_'' @ path_name filename"
    and "lookup w1 p = Some (File c (clock w))"
proof -
  let ?p = "UPLOAD_DIR env @ ''/'' @ t @ ''_'' @ path_name filename"
  have j: "os_path_join (UPLOAD_DIR env) (t @ ''_'' @ path_name filename) = ?p"
    by (rule staged_path_eq [OF assms(1)])
  from assms(2) have w: "write_file w ?p c = (Inr (), w1)" and p: "p = ?p"
    unfolding save_uploaded_file_def Let_def j
    by (auto split: prod.splits sum.splits)
  show "p = ?p" by (rule p)
  show "lookup w1 p = Some (File c (clock w))"
    using lookup_write_file [OF w, of p] p by simp
qed

lemma run_backend_result:
  assumes "lookup w p = Some (File c t)"
  shows "fst (run_backend env b w p) = backend_convert env b p c"
    and "files (snd (run_backend env b w p)) = files w"
  using assms by (simp_all add: run_backend_def)

lemma base64_result_after_staging:
  assumes "is_file_id t" and "b64decode env payload = Inr c"
    and "save_uploaded_file env t w filename c = (Inr p, w1)"
  shows "fst (improved_convert_file_from_base64 env t w filename payload) =
           (if \<not> fst (validate_file_content filename (int (length c)))
            then Inr (fail_mark @ '' Error: '' @ snd (validate_file_content filename (int (length c))))
            else (case backend_convert env (MarkItDown False) p c of
                    Inl e \<Rightarrow> Inr (fail_mark @ '' Conversion failed: '' @ exn_str e)
                  | Inr text_content \<Rightarrow>
                      Inr (ok_mark @ '' Conversion successful!'' @ nl @ nl
                             @ ''--- MARKDOWN CONTENT ---'' @ nl @ text_content)))"
proof -
  have l: "lookup w1 p = Some (File c (clock w))"
    by (rule save_uploaded_file_path(2) [OF assms(1,3)])
  have r: "fst (run_backend env (MarkItDown False) w1 p) = backend_convert env (MarkItDown False) p c"
    by (rule run_backend_result(1) [OF l])
  show ?thesis
    using r
    by (auto simp add: improved_convert_file_from_base64_def convert_file_from_base64_try_def
                       assms(2,3) Let_def
             split: prod.splits sum.splits)
qed

lemma try_staged:
  assumes "convert_file_from_base64_try env t w f payload = (Some p, r, w1)"
  shows "\<exists>c w0. b64decode env payload = Inr c \<and> save_uploaded_file env t w f c = (Inr p, w0)"
  using assms
  by (auto simp add: convert_file_from_base64_try_def Let_def
           split: sum.splits prod.splits if_splits)

lemma ref_env_ignores_staged_name: "backend_ignores_staged_name ref_env"
  unfolding backend_ignores_staged_name_def ref_env_def ref_backend_def
  by (intro allI impI) (simp split: backend.splits)

subsection \<open>Release of the staged file\<close>

lemma os_path_join_not_Nil: "b \<noteq> [] \<Longrightarrow> os_path_join a b \<noteq> []"
  by (simp add: os_path_join_def)

lemma improved_releases_staged_file:
  assumes "convert_file_from_base64_try env file_id w filename payload = (Some p, r, w1)"
  shows "\<not> os_path_exists (snd (improved_convert_file_from_base64 env file_id w filename payload)) p"
proof -
  from assms obtain c w0 where
      s: "save_uploaded_file env file_id w filename c = (Inr p, w0)"
      and f: "files w1 = files w0"
    by (auto simp add: convert_file_from_base64_try_def Let_def run_backend_def
             split: sum.splits prod.splits if_splits)
  from s obtain q where w: "write_file w q c = (Inr (), w0)" and q: "p = q"
    and j: "q = os_path_join (UPLOAD_DIR env) (file_id @ ''_'' @ path_name filename)"
    by (auto simp add: save_uploaded_file_def Let_def split: prod.splits sum.splits)
  have ne: "p \<noteq> []" unfolding q j by (rule os_path_join_not_Nil) simp
  have l: "lookup w1 p = Some (File c (clock w))"
    using lookup_write_file [OF w, of p] q f by (simp add: lookup_def)
  have "\<not> os_path_exists (release_temp_file w1 (Some p)) p"
    using l ne
    by (auto simp add: release_temp_file_def os_path_exists_def os_remove_def lookup_def delete_conv')
  then show ?thesis
    using assms by (auto simp add: improved_convert_file_from_base64_def split: sum.splits)
qed

lemma cleanup_loop_world: "snd (cleanup_loop w count ps) = w"
  by (cases ps) (auto simp add: os_time_time_def split: sum.splits)

lemma cleanup_old_files_world: "snd (cleanup_old_files env w) = w"
  using cleanup_loop_world [of w 0 "os_walk_files w (OUTPUT_DIR env)"]
  by (auto simp add: cleanup_old_files_def split: prod.splits sum.splits)

text \<open>
  Claim C1. In improved\_mcp\_server.py the \<open>finally\<close> block removes the staged file on
  every path that staged one (lemma \<open>improved_releases_staged_file\<close>). In server.py,
  \<open>convert_file_content_to_markdown\<close> removes it only after the conversion has returned:
  when the backend raises, the exception leaves the function before the clean-up. Run on
  \<open>report.pdf\<close> with a payload that decodes to \<open>not a pdf\<close>, the document converter
  raises, the exception reaches the caller, and \<open>/tmp/report.pdf\<close> is still in the file
  system.
\<close>

theorem C1_staged_file_left_behind:
  "b64decode ref_env ''bm90IGEgcGRm'' = Inr ''not a pdf''
   \<and> convert_file_content_to_markdown ref_env empty_world ''bm90IGEgcGRm'' ''report.pdf'' ''/tmp'' =
       (Inl (ConversionError ''not a PDF document''),
        \<lparr>files = [(''/tmp'', Dir), (''/tmp/report.pdf'', File ''not a pdf'' 10000)],
          clock = 10000, cwd = ''/srv'',
          trace = [MadeDir ''/tmp'', Wrote ''/tmp/report.pdf'',
                   Converted (DocumentConverter True) ''/tmp/report.pdf'']\<rparr>)"
  by code_simp

subsection \<open>The sweep\<close>

text \<open>
  Claim C2. \<open>cleanup_old_files\<close> never gets to compare a creation time with the clock:
  \<open>os.time\<close> does not exist, the first file met raises \<open>AttributeError\<close>, and the handler
  turns it into a failure message. With artifacts aged 30, 61 and 120 minutes in the output
  directory it removes none and reports no count (lemma \<open>cleanup_old_files_world\<close>: it
  never changes the world).
\<close>

theorem C2_sweep_removes_nothing:
  "os_walk_files sweep_world (OUTPUT_DIR ref_env) =
     [''/tmp/mcp_converter_x/outputs/a_1111aaaa.md'', ''/tmp/mcp_converter_x/outputs/b_2222bbbb.md'',
      ''/tmp/mcp_converter_x/outputs/c_3333cccc.md'']
   \<and> cleanup_old_files ref_env sweep_world =
     (Inr (fail_mark @ '' Cleanup failed: module '' @ quote @ ''os'' @ quote
             @ '' has no attribute '' @ quote @ ''time'' @ quote),
      sweep_world)"
  by code_simp

subsection \<open>Staged names\<close>

text \<open>
  Claim C9, as stated, fails, twice. The token is eight hexadecimal digits drawn with no
  check that the name is free: two requests for \<open>note.txt\<close> that draw the same token
  \<open>0a1b2c3d\<close> are staged under one name, and when the second is staged while the file
  of the first is still there, it replaces its content (\<open>hello\<close> by \<open>other\<close>). And a
  deterministic backend need not return the same text for the same content: the text may
  depend on the name of the staged file, which carries the token. With the backend of
  \<open>titled_env\<close> the same request under two tokens returns two different texts.
\<close>

theorem C9_counterexample:
  "is_file_id ''0a1b2c3d''
   \<and> fst (convert_file_from_base64_try ref_env ''0a1b2c3d'' empty_world ''note.txt'' ''aGVsbG8='')
       = Some ''/tmp/mcp_converter_x/uploads/0a1b2c3d_note.txt''
   \<and> lookup (snd (snd (convert_file_from_base64_try ref_env ''0a1b2c3d'' empty_world
                          ''note.txt'' ''aGVsbG8='')))
        ''/tmp/mcp_converter_x/uploads/0a1b2c3d_note.txt''
       = Some (File ''hello'' 10000)
   \<and> fst (convert_file_from_base64_try ref_env ''0a1b2c3d''
             (snd (snd (convert_file_from_base64_try ref_env ''0a1b2c3d'' empty_world
                          ''note.txt'' ''aGVsbG8='')))
             ''note.txt'' ''b3RoZXI='')
       = Some ''/tmp/mcp_converter_x/uploads/0a1b2c3d_note.txt''
   \<and> lookup (snd (snd (convert_file_from_base64_try ref_env ''0a1b2c3d''
                          (snd (snd (convert_file_from_base64_try ref_env ''0a1b2c3d'' empty_world
                                       ''note.txt'' ''aGVsbG8='')))
                          ''note.txt'' ''b3RoZXI='')))
        ''/tmp/mcp_converter_x/uploads/0a1b2c3d_note.txt''
       = Some (File ''other'' 10000)
   \<and> fst (improved_convert_file_from_base64 titled_env ''0a1b2c3d'' empty_world ''note.txt'' ''aGVsbG8='')
       = Inr (ok_mark @ '' Conversion successful!'' @ nl @ nl @ ''--- MARKDOWN CONTENT ---'' @ nl
                @ ''0a1b2c3d_note.txt: hello'')
   \<and> fst (improved_convert_file_from_base64 titled_env ''4e5f6071'' empty_world ''note.txt'' ''aGVsbG8='')
       = Inr (ok_mark @ '' Conversion successful!'' @ nl @ nl @ ''--- MARKDOWN CONTENT ---'' @ nl
                @ ''4e5f6071_note.txt: hello'')"
  by code_simp

text \<open>
  Claim C9, amended. Take two requests to \<open>convert_file_from_base64\<close> that both get as
  far as staging their file, under the tokens \<open>t1\<close> and \<open>t2\<close>. Each staged path is
  the upload directory, a slash, the token, an underscore and the base name of the file
  name; so the two staged paths are the same exactly when the tokens are the same and the
  base names are the same, and two requests that drew different tokens never collide.
  When the result of the backend is fixed by the content and the suffix of the path, two
  such requests with the same file name and the same payload return the same string,
  whatever their tokens and the worlds they run in.
\<close>

theorem C9_staged_names_and_text:
  assumes t1: "is_file_id t1" and t2: "is_file_id t2"
    and r1: "convert_file_from_base64_try env t1 w f1 payload1 = (Some p1, r1, wa)"
    and r2: "convert_file_from_base64_try env t2 w' f2 payload2 = (Some p2, r2, wb)"
  shows "p1 = UPLOAD_DIR env @ ''/'' @ t1 @ ''_'' @ path_name f1
       \<and> p2 = UPLOAD_DIR env @ ''/'' @ t2 @ ''_'' @ path_name f2
       \<and> (p1 = p2) = (t1 = t2 \<and> path_name f1 = path_name f2)
       \<and> (backend_ignores_staged_name env \<and> f1 = f2 \<and> payload1 = payload2 \<longrightarrow>
            fst (improved_convert_file_from_base64 env t1 w f1 payload1)
              = fst (improved_convert_file_from_base64 env t2 w' f2 payload2))"
proof -
  from try_staged [OF r1] obtain c1 w1 where
    d1: "b64decode env payload1 = Inr c1" and s1: "save_uploaded_file env t1 w f1 c1 = (Inr p1, w1)"
    by blast
  from try_staged [OF r2] obtain c2 w2 where
    d2: "b64decode env payload2 = Inr c2" and s2: "save_uploaded_file env t2 w' f2 c2 = (Inr p2, w2)"
    by blast
  have p1: "p1 = UPLOAD_DIR env @ ''/'' @ t1 @ ''_'' @ path_name f1"
    by (rule save_uploaded_file_path(1) [OF t1 s1])
  have p2: "p2 = UPLOAD_DIR env @ ''/'' @ t2 @ ''_'' @ path_name f2"
    by (rule save_uploaded_file_path(1) [OF t2 s2])
  have e: "(p1 = p2) = (t1 = t2 \<and> path_name f1 = path_name f2)"
    unfolding p1 p2 by (rule staged_paths_eq_iff [OF t1 t2])
  have x: "fst (improved_convert_file_from_base64 env t1 w f1 payload1)
              = fst (improved_convert_file_from_base64 env t2 w' f2 payload2)"
    if det: "backend_ignores_staged_name env" and f: "f1 = f2" and pl: "payload1 = payload2"
  proof -
    have c: "c1 = c2" using d1 d2 pl by simp
    have "path_suffix p1 = path_suffix p2"
      unfolding p1 p2 f staged_suffix [OF t1] staged_suffix [OF t2] ..
    with det have b: "backend_convert env (MarkItDown False) p1 c2
                        = backend_convert env (MarkItDown False) p2 c2"
      unfolding backend_ignores_staged_name_def by blast
    show ?thesis
      using base64_result_after_staging [OF t1 d1 s1] base64_result_after_staging [OF t2 d2 s2]
      unfolding c f b by simp
  qed
  from p1 p2 e x show ?thesis by blast
qed

theorem C9_staged_names_and_text_witness:
  "is_file_id ''0a1b2c3d'' \<and> is_file_id ''4e5f6071''
   \<and> backend_ignores_staged_name ref_env
   \<and> fst (convert_file_from_base64_try ref_env ''0a1b2c3d'' empty_world ''note.txt'' ''aGVsbG8='')
       = Some ''/tmp/mcp_converter_x/uploads/0a1b2c3d_note.txt''
   \<and> fst (convert_file_from_base64_try ref_env ''4e5f6071'' empty_world ''note.txt'' ''aGVsbG8='')
       = Some ''/tmp/mcp_converter_x/uploads/4e5f6071_note.txt''
   \<and> ''/tmp/mcp_converter_x/uploads/0a1b2c3d_note.txt''
       = UPLOAD_DIR ref_env @ ''/'' @ ''0a1b2c3d'' @ ''_'' @ path_name ''note.txt''
   \<and> ''/tmp/mcp_converter_x/uploads/0a1b2c3d_note.txt''
       \<noteq> ''/tmp/mcp_converter_x/uploads/4e5f6071_note.txt''
   \<and> fst (improved_convert_file_from_base64 ref_env ''0a1b2c3d'' empty_world ''note.txt'' ''aGVsbG8='')
       = fst (improved_convert_file_from_base64 ref_env ''4e5f6071'' empty_world ''note.txt'' ''aGVsbG8='')"
proof -
  let ?t1 = "convert_file_from_base64_try ref_env ''0a1b2c3d'' empty_world ''note.txt'' ''aGVsbG8=''"
  let ?t2 = "convert_file_from_base64_try ref_env ''4e5f6071'' empty_world ''note.txt'' ''aGVsbG8=''"
  have i1: "is_file_id ''0a1b2c3d''" by code_simp
  have i2: "is_file_id ''4e5f6071''" by code_simp
  have a: "fst ?t1 = Some ''/tmp/mcp_converter_x/uploads/0a1b2c3d_note.txt''" by code_simp
  have b: "fst ?t2 = Some ''/tmp/mcp_converter_x/uploads/4e5f6071_note.txt''" by code_simp
  have r1: "?t1 = (Some ''/tmp/mcp_converter_x/uploads/0a1b2c3d_note.txt'', fst (snd ?t1), snd (snd ?t1))"
    using a by (metis prod.collapse)
  have r2: "?t2 = (Some ''/tmp/mcp_converter_x/uploads/4e5f6071_note.txt'', fst (snd ?t2), snd (snd ?t2))"
    using b by (metis prod.collapse)
  note th = C9_staged_names_and_text [OF i1 i2 r1 r2]
  have p: "''/tmp/mcp_converter_x/uploads/0a1b2c3d_note.txt''
       = UPLOAD_DIR ref_env @ ''/'' @ ''0a1b2c3d'' @ ''_'' @ path_name ''note.txt''"
    by (rule th [THEN conjunct1])
  have x: "fst (improved_convert_file_from_base64 ref_env ''0a1b2c3d'' empty_world ''note.txt'' ''aGVsbG8='')
       = fst (improved_convert_file_from_base64 ref_env ''4e5f6071'' empty_world ''note.txt'' ''aGVsbG8='')"
    by (rule th [THEN conjunct2, THEN conjunct2, THEN conjunct2, rule_format,
                 OF conjI [OF ref_env_ignores_staged_name conjI [OF refl refl]]])
  have n: "''/tmp/mcp_converter_x/uploads/0a1b2c3d_note.txt''
       \<noteq> ''/tmp/mcp_converter_x/uploads/4e5f6071_note.txt''"
    using th [THEN conjunct2, THEN conjunct2, THEN conjunct1] by simp
  from i1 i2 ref_env_ignores_staged_name a b p n x show ?thesis by (intro conjI)
qed

subsection \<open>Folder conversion\<close>

lemma splitext_root_set: "set (os_path_splitext_root p) \<subseteq> set p"
  by (auto simp add: os_path_splitext_root_def Let_def dest: in_set_takeD)

lemma join_child: "\<not> prefix ''/'' n \<Longrightarrow> os_path_join d n = os_path_join d [] @ n"
  by (simp add: os_path_join_def)

lemma no_slash_not_prefix: "CHR ''/'' \<notin> set n \<Longrightarrow> \<not> prefix ''/'' n"
  by (cases n) auto

lemma output_dir_shape: "os_path_join d ''markdown_output'' = os_path_join d [] @ ''markdown_output''"
  by (rule join_child) simp

lemma output_file_shape:
  assumes "CHR ''/'' \<notin> set x"
  shows "os_path_join (os_path_join d ''markdown_output'') x
           = os_path_join d [] @ ''markdown_output/'' @ x"
proof -
  let ?o = "os_path_join d [] @ ''markdown_output''"
  have "last ?o = CHR ''t''" by simp
  then have "\<not> suffix ''/'' ?o" by (auto simp add: suffix_def)
  moreover have "?o \<noteq> []" by simp
  ultimately have "os_path_join ?o x = ?o @ ''/'' @ x"
    using no_slash_not_prefix [OF assms] by (simp add: os_path_join_def)
  then show ?thesis unfolding output_dir_shape by simp
qed

lemma output_file_not_child:
  assumes "CHR ''/'' \<notin> set x" and "CHR ''/'' \<notin> set m"
  shows "os_path_join d m \<noteq> os_path_join (os_path_join d ''markdown_output'') x"
proof
  assume "os_path_join d m = os_path_join (os_path_join d ''markdown_output'') x"
  then have "os_path_join d [] @ m = os_path_join d [] @ ''markdown_output/'' @ x"
    unfolding output_file_shape [OF assms(1)] join_child [OF no_slash_not_prefix [OF assms(2)]] .
  then have "m = ''markdown_output/'' @ x" by simp
  with assms(2) show False by simp
qed

lemma md_name_no_slash:
  assumes "CHR ''/'' \<notin> set n"
  shows "CHR ''/'' \<notin> set (os_path_splitext_root n @ ''.md'')"
  using assms splitext_root_set [of n] by auto

lemma same_inputs_refl: "same_inputs d w w"
  by (simp add: same_inputs_def)

lemma lookup_trace_update [simp]: "lookup (w\<lparr>trace := t\<rparr>) q = lookup w q"
  by (simp add: lookup_def)

lemma same_inputs_isfile:
  assumes "same_inputs d w1 wc" and "CHR ''/'' \<notin> set n"
  shows "os_path_isfile wc (os_path_join d n) = os_path_isfile w1 (os_path_join d n)"
  using assms by (simp add: same_inputs_def os_path_isfile_def)

lemma os_listdir_names: "n \<in> set (os_listdir w d) \<Longrightarrow> CHR ''/'' \<notin> set n"
  by (auto simp add: os_listdir_def Let_def)

lemma convert_one_effect:
  assumes s: "same_inputs d w1 wc" and ck: "clock wc = clock w1" and n: "CHR ''/'' \<notin> set n"
  shows "fst (convert_one env wc (os_path_join d n) (os_path_join d ''markdown_output'') n)
           = (case file_outcome env w1 d n of Inl e \<Rightarrow> Inl e | Inr t \<Rightarrow> Inr ())"
    and "clock (snd (convert_one env wc (os_path_join d n) (os_path_join d ''markdown_output'') n))
           = clock wc"
    and "trace (snd (convert_one env wc (os_path_join d n) (os_path_join d ''markdown_output'') n))
           = trace wc @ Converted (MarkItDown False) (os_path_join d n)
               # (case file_outcome env w1 d n of Inl e \<Rightarrow> [] | Inr t \<Rightarrow> [Wrote (markdown_path d n)])"
    and "lookup (snd (convert_one env wc (os_path_join d n) (os_path_join d ''markdown_output'') n)) q
           = (case file_outcome env w1 d n of
                Inl e \<Rightarrow> lookup wc q
              | Inr t \<Rightarrow> if q = markdown_path d n then Some (File t (clock w1)) else lookup wc q)"
proof -
  let ?p = "os_path_join d n"
  let ?o = "markdown_path d n"
  have lp: "lookup wc ?p = lookup w1 ?p" using s n by (simp add: same_inputs_def)
  have ld: "(lookup wc ?o = Some Dir) = (lookup w1 ?o = Some Dir)" using s by (simp add: same_inputs_def)
  have o: "os_path_join (os_path_join d ''markdown_output'') (os_path_splitext_root n @ ''.md'') = ?o"
    by (simp add: markdown_path_def)
  show "fst (convert_one env wc ?p (os_path_join d ''markdown_output'') n)
           = (case file_outcome env w1 d n of Inl e \<Rightarrow> Inl e | Inr t \<Rightarrow> Inr ())"
    using lp ld unfolding convert_one_def file_outcome_def o
    by (auto simp add: run_backend_def write_file_def split: option.splits node.splits sum.splits)
  show "clock (snd (convert_one env wc ?p (os_path_join d ''markdown_output'') n)) = clock wc"
    unfolding convert_one_def
    by (auto simp add: run_backend_def write_file_def split: option.splits node.splits sum.splits)
  show "trace (snd (convert_one env wc ?p (os_path_join d ''markdown_output'') n))
           = trace wc @ Converted (MarkItDown False) ?p
               # (case file_outcome env w1 d n of Inl e \<Rightarrow> [] | Inr t \<Rightarrow> [Wrote ?o])"
    using lp ld unfolding convert_one_def file_outcome_def o
    by (auto simp add: run_backend_def write_file_def split: option.splits node.splits sum.splits)
  show "lookup (snd (convert_one env wc ?p (os_path_join d ''markdown_output'') n)) q
           = (case file_outcome env w1 d n of
                Inl e \<Rightarrow> lookup wc q
              | Inr t \<Rightarrow> if q = ?o then Some (File t (clock w1)) else lookup wc q)"
    using lp ld ck unfolding convert_one_def file_outcome_def o
    by (auto simp add: run_backend_def write_file_def lookup_def update_conv'
             split: option.splits node.splits sum.splits)
qed

lemma file_outcome_written:
  assumes "file_outcome env w d n = Inr t"
  shows "lookup w (markdown_path d n) \<noteq> Some Dir"
  using assms
  by (auto simp add: file_outcome_def write_file_def split: sum.splits option.splits node.splits)

lemma markdown_path_not_child:
  assumes "CHR ''/'' \<notin> set n" and "CHR ''/'' \<notin> set m"
  shows "os_path_join d m \<noteq> markdown_path d n"
  unfolding markdown_path_def
  by (rule output_file_not_child [OF md_name_no_slash [OF assms(1)] assms(2)])

lemma convert_one_keeps_inputs:
  assumes s: "same_inputs d w1 wc" and ck: "clock wc = clock w1" and n: "CHR ''/'' \<notin> set n"
  shows "same_inputs d w1
           (snd (convert_one env wc (os_path_join d n) (os_path_join d ''markdown_output'') n))"
proof (cases "file_outcome env w1 d n")
  case (Inl e)
  then show ?thesis
    using s convert_one_effect(4) [OF s ck n, where env = env]
    by (simp add: same_inputs_def)
next
  case (Inr t)
  let ?w2 = "snd (convert_one env wc (os_path_join d n) (os_path_join d ''markdown_output'') n)"
  have l: "lookup ?w2 q = (if q = markdown_path d n then Some (File t (clock w1)) else lookup wc q)"
    for q
    using convert_one_effect(4) [OF s ck n, where env = env] Inr by simp
  have nd: "lookup w1 (markdown_path d n) \<noteq> Some Dir" by (rule file_outcome_written [OF Inr])
  have a: "lookup ?w2 (os_path_join d m) = lookup w1 (os_path_join d m)"
    if "CHR ''/'' \<notin> set m" for m
    using markdown_path_not_child [OF n that] s that by (simp add: l same_inputs_def)
  have b: "(lookup ?w2 q = Some Dir) = (lookup w1 q = Some Dir)" for q
  proof (cases "q = markdown_path d n")
    case True
    then show ?thesis using nd by (simp add: l)
  next
    case False
    then show ?thesis using s by (simp add: l same_inputs_def)
  qed
  show ?thesis unfolding same_inputs_def using a b by blast
qed

lemma outputs_written_step:
  assumes prev: "outputs_written env w1 d pre wc"
    and l: "\<And>q. lookup w2 q
              = (case file_outcome env w1 d n of
                   Inl e \<Rightarrow> lookup wc q
                 | Inr t \<Rightarrow> if q = markdown_path d n then Some (File t (clock w1)) else lookup wc q)"
    and f: "os_path_isfile w1 (os_path_join d n)"
  shows "outputs_written env w1 d (pre @ [n]) w2"
proof (cases "file_outcome env w1 d n")
  case (Inl e)
  then have c: "converted_files env w1 d (pre @ [n]) = converted_files env w1 d pre"
    by (simp add: converted_files_def)
  have "lookup w2 q = lookup wc q" for q using l [of q] Inl by simp
  then show ?thesis using prev unfolding outputs_written_def c by simp
next
  case (Inr t)
  then have c: "converted_files env w1 d (pre @ [n]) = converted_files env w1 d pre @ [n]"
    using f by (simp add: converted_files_def)
  have l2: "lookup w2 q = (if q = markdown_path d n then Some (File t (clock w1)) else lookup wc q)"
    for q using l [of q] Inr by simp
  show ?thesis
    unfolding outputs_written_def c
  proof
    fix k
    assume k: "k \<in> set (converted_files env w1 d pre @ [n])"
    let ?same = "\<lambda>m. markdown_path d m = markdown_path d k"
    show "\<exists>t. file_outcome env w1 d (last (filter ?same (converted_files env w1 d pre @ [n]))) = Inr t
              \<and> lookup w2 (markdown_path d k) = Some (File t (clock w1))"
    proof (cases "markdown_path d k = markdown_path d n")
      case True
      then have "last (filter ?same (converted_files env w1 d pre @ [n])) = n" by simp
      then show ?thesis using Inr True by (simp add: l2)
    next
      case False
      then have kp: "k \<in> set (converted_files env w1 d pre)" using k by auto
      from False have e: "filter ?same (converted_files env w1 d pre @ [n])
                          = filter ?same (converted_files env w1 d pre)"
        by auto
      from prev kp obtain t' where
        "file_outcome env w1 d (last (filter ?same (converted_files env w1 d pre))) = Inr t'"
        "lookup wc (markdown_path d k) = Some (File t' (clock w1))"
        unfolding outputs_written_def by blast
      then show ?thesis unfolding e using False by (simp add: l2)
    qed
  qed
qed

lemma outputs_written_skip:
  assumes prev: "outputs_written env w1 d pre wc"
    and f: "\<not> os_path_isfile w1 (os_path_join d n)"
  shows "outputs_written env w1 d (pre @ [n]) wc"
proof -
  have "converted_files env w1 d (pre @ [n]) = converted_files env w1 d pre"
    using f by (simp add: converted_files_def)
  then show ?thesis using prev unfolding outputs_written_def by simp
qed

lemma convert_each_run:
  assumes "\<forall>n\<in>set names. CHR ''/'' \<notin> set n"
    and "same_inputs d w1 wc" and "clock wc = clock w1"
    and "outputs_written env w1 d pre wc"
  shows "\<exists>w'. convert_each env d (os_path_join d ''markdown_output'') names (wc, P, S)
               = (w', P @ converted_files env w1 d names, S @ skipped_files env w1 d names)
             \<and> same_inputs d w1 w' \<and> clock w' = clock w1
             \<and> trace w' = trace wc @ folder_events env w1 d names
             \<and> outputs_written env w1 d (pre @ names) w'"
  using assms
proof (induction names arbitrary: wc P S pre)
  case Nil
  then show ?case by (simp add: converted_files_def skipped_files_def folder_events_def)
next
  case (Cons n names)
  have n: "CHR ''/'' \<notin> set n" and rest: "\<forall>m\<in>set names. CHR ''/'' \<notin> set m"
    using Cons.prems(1) by simp_all
  note s = Cons.prems(2) and ck = Cons.prems(3) and ow = Cons.prems(4)
  let ?p = "os_path_join d n"
  let ?od = "os_path_join d ''markdown_output''"
  have isf: "os_path_isfile wc ?p = os_path_isfile w1 ?p" by (rule same_inputs_isfile [OF s n])
  show ?case
  proof (cases "os_path_isfile w1 ?p")
    case False
    have ow2: "outputs_written env w1 d (pre @ [n]) wc" by (rule outputs_written_skip [OF ow False])
    from Cons.IH [where P = P and S = S and pre = "pre @ [n]", OF rest s ck ow2] obtain w' where
      "convert_each env d ?od names (wc, P, S)
         = (w', P @ converted_files env w1 d names, S @ skipped_files env w1 d names)"
      "same_inputs d w1 w'" "clock w' = clock w1"
      "trace w' = trace wc @ folder_events env w1 d names"
      "outputs_written env w1 d ((pre @ [n]) @ names) w'" by blast
    then show ?thesis using False isf
      by (simp add: converted_files_def skipped_files_def folder_events_def)
  next
    case True
    obtain r w2 where c: "convert_one env wc ?p ?od n = (r, w2)" by (cases "convert_one env wc ?p ?od n")
    have r: "r = (case file_outcome env w1 d n of Inl e \<Rightarrow> Inl e | Inr t \<Rightarrow> Inr ())"
      using convert_one_effect(1) [OF s ck n, where env = env] c by simp
    have ck2: "clock w2 = clock w1"
      using convert_one_effect(2) [OF s ck n, where env = env] c ck by simp
    have tr: "trace w2 = trace wc @ Converted (MarkItDown False) ?p
               # (case file_outcome env w1 d n of Inl e \<Rightarrow> [] | Inr t \<Rightarrow> [Wrote (markdown_path d n)])"
      using convert_one_effect(3) [OF s ck n, where env = env] c by simp
    have lk: "lookup w2 q = (case file_outcome env w1 d n of
                Inl e \<Rightarrow> lookup wc q
              | Inr t \<Rightarrow> if q = markdown_path d n then Some (File t (clock w1)) else lookup wc q)"
      for q
      using convert_one_effect(4) [OF s ck n, where env = env and q = q] c by simp
    have s2: "same_inputs d w1 w2" using convert_one_keeps_inputs [OF s ck n, where env = env] c by simp
    have ow2: "outputs_written env w1 d (pre @ [n]) w2"
      by (rule outputs_written_step [OF ow lk True])
    show ?thesis
    proof (cases "file_outcome env w1 d n")
      case (Inl e)
      from Cons.IH [where P = P and S = "S @ [n @ '' ('' @ exn_str e @ '')'']" and pre = "pre @ [n]",
                    OF rest s2 ck2 ow2]
      obtain w' where
        "convert_each env d ?od names (w2, P, S @ [n @ '' ('' @ exn_str e @ '')''])
           = (w', P @ converted_files env w1 d names,
              (S @ [n @ '' ('' @ exn_str e @ '')'']) @ skipped_files env w1 d names)"
        "same_inputs d w1 w'" "clock w' = clock w1"
        "trace w' = trace w2 @ folder_events env w1 d names"
        "outputs_written env w1 d ((pre @ [n]) @ names) w'" by blast
      then show ?thesis using True isf c Inl r tr
        by (simp add: converted_files_def skipped_files_def folder_events_def)
    next
      case (Inr t)
      from Cons.IH [where P = "P @ [n]" and S = S and pre = "pre @ [n]", OF rest s2 ck2 ow2]
      obtain w' where
        "convert_each env d ?od names (w2, P @ [n], S)
           = (w', (P @ [n]) @ converted_files env w1 d names, S @ skipped_files env w1 d names)"
        "same_inputs d w1 w'" "clock w' = clock w1"
        "trace w' = trace w2 @ folder_events env w1 d names"
        "outputs_written env w1 d ((pre @ [n]) @ names) w'" by blast
      then show ?thesis using True isf c Inr r tr
        by (simp add: converted_files_def skipped_files_def folder_events_def)
    qed
  qed
qed

lemma outputs_written_Nil: "outputs_written env w d [] w'"
  by (simp add: outputs_written_def converted_files_def)

text \<open>
  Claim C10. For a folder that exists, once the output directory is made,
  \<open>convert_folder\<close> returns \<open>Converted n files. Markdown saved to:\<close> with the output
  directory, followed, when some file was skipped, by \<open>Skipped k files:\<close> with the
  skipped entries separated by commas. Here \<open>n\<close> counts the regular files of the folder
  whose own conversion and write succeed in the world the loop starts in, and the skipped
  entries are, in the order of the listing, the name and the error of each regular file
  whose own conversion or write fails there: what happens to one file changes nothing for
  the others. The loop runs the backend once on every regular file, in the order of the
  listing, and writes after each run that succeeded; at the end the Markdown path of every
  converted file holds the text of the last converted file that has this Markdown path
  (two files with the same stem share one), and the entries of the folder itself are as
  they were.
\<close>

theorem C10_files_converted_independently:
  assumes d: "os_path_isdir w (os_path_abspath (cwd w) folder)"
    and m: "os_makedirs w (os_path_join (os_path_abspath (cwd w) folder) ''markdown_output'')
              = (Inr (), w1)"
  shows "let folder_path = os_path_abspath (cwd w) folder;
             names = os_listdir w1 folder_path;
             converted = converted_files env w1 folder_path names;
             skipped = skipped_files env w1 folder_path names
         in \<exists>w2. convert_folder env w folder
                    = (Inr (git_ok_mark @ '' Converted '' @ str_nat (length converted)
                              @ '' files. Markdown saved to: ''
                              @ os_path_join folder_path ''markdown_output'' @ nl
                              @ (if skipped = [] then []
                                 else git_warn_mark @ '' Skipped '' @ str_nat (length skipped)
                                        @ '' files: '' @ join_str '', '' skipped)),
                       w2)
                \<and> trace w2 = trace w1 @ folder_events env w1 folder_path names
                \<and> (\<forall>n \<in> set converted.
                      \<exists>t. file_outcome env w1 folder_path
                             (last (filter (\<lambda>m. markdown_path folder_path m
                                                   = markdown_path folder_path n) converted))
                             = Inr t
                           \<and> lookup w2 (markdown_path folder_path n) = Some (File t (clock w1)))
                \<and> (\<forall>n. CHR ''/'' \<notin> set n \<longrightarrow>
                      lookup w2 (os_path_join folder_path n)
                        = lookup w1 (os_path_join folder_path n))"
proof -
  let ?d = "os_path_abspath (cwd w) folder"
  have "\<forall>n\<in>set (os_listdir w1 ?d). CHR ''/'' \<notin> set n" using os_listdir_names by blast
  from convert_each_run [where env = env and P = "[]" and S = "[]" and pre = "[]",
                         OF this same_inputs_refl refl outputs_written_Nil]
  obtain w' where
    c: "convert_each env ?d (os_path_join ?d ''markdown_output'') (os_listdir w1 ?d) (w1, [], [])
         = (w', converted_files env w1 ?d (os_listdir w1 ?d), skipped_files env w1 ?d (os_listdir w1 ?d))"
    and s: "same_inputs ?d w1 w'"
    and t: "trace w' = trace w1 @ folder_events env w1 ?d (os_listdir w1 ?d)"
    and o: "outputs_written env w1 ?d (os_listdir w1 ?d) w'"
    by auto
  have r: "convert_folder env w folder
             = (Inr (folder_summary (os_path_join ?d ''markdown_output'')
                       (converted_files env w1 ?d (os_listdir w1 ?d))
                       (skipped_files env w1 ?d (os_listdir w1 ?d))), w')"
    using d m c by (simp add: convert_folder_def Let_def)
  have i: "\<forall>n. CHR ''/'' \<notin> set n \<longrightarrow> lookup w' (os_path_join ?d n) = lookup w1 (os_path_join ?d n)"
    using s by (simp add: same_inputs_def)
  show ?thesis
    unfolding Let_def
    using r t o i unfolding outputs_written_def folder_summary_def
    by (intro exI [of _ w']) auto
qed

theorem C10_files_converted_independently_witness:
  "os_path_isdir docs_world (os_path_abspath (cwd docs_world) ''docs'')
   \<and> fst (os_makedirs docs_world ''/srv/docs/markdown_output'') = Inr ()
   \<and> (\<exists>w2. convert_folder ref_env docs_world ''docs''
               = (Inr (git_ok_mark @ '' Converted 3 files. Markdown saved to: /srv/docs/markdown_output''
                         @ nl @ git_warn_mark
                         @ '' Skipped 1 files: b.docx (File is not a zip file)''), w2)
            \<and> trace w2 = [MadeDir ''/srv/docs/markdown_output'',
                           Converted (MarkItDown False) ''/srv/docs/a.txt'',
                           Wrote ''/srv/docs/markdown_output/a.md'',
                           Converted (MarkItDown False) ''/srv/docs/b.docx'',
                           Converted (MarkItDown False) ''/srv/docs/c.txt'',
                           Wrote ''/srv/docs/markdown_output/c.md'',
                           Converted (MarkItDown False) ''/srv/docs/c.html'',
                           Wrote ''/srv/docs/markdown_output/c.md'']
            \<and> lookup w2 ''/srv/docs/markdown_output/a.md'' = Some (File ''alpha'' 10000)
            \<and> lookup w2 ''/srv/docs/markdown_output/c.md'' = Some (File ''<p>gamma</p>'' 10000)
            \<and> lookup w2 ''/srv/docs/b.docx'' = Some (File ''not a zip'' 0))"
proof -
  let ?w1 = "snd (os_makedirs docs_world ''/srv/docs/markdown_output'')"
  let ?names = "[''a.txt'', ''b.docx'', ''c.txt'', ''c.html'', ''markdown_output'']"
  let ?conv = "[''a.txt'', ''c.txt'', ''c.html'']"
  have a: "os_path_abspath (cwd docs_world) ''docs'' = ''/srv/docs''" by code_simp
  have j: "os_path_join ''/srv/docs'' ''markdown_output'' = ''/srv/docs/markdown_output''"
    by code_simp
  have d: "os_path_isdir docs_world (os_path_abspath (cwd docs_world) ''docs'')" by code_simp
  have f: "fst (os_makedirs docs_world ''/srv/docs/markdown_output'') = Inr ()" by code_simp
  have m: "os_makedirs docs_world
             (os_path_join (os_path_abspath (cwd docs_world) ''docs'') ''markdown_output'')
           = (Inr (), ?w1)"
    unfolding a j using f by (metis prod.collapse)
  have l: "os_listdir ?w1 ''/srv/docs'' = ?names" by code_simp
  have c: "converted_files ref_env ?w1 ''/srv/docs'' ?names = ?conv" by code_simp
  have k: "skipped_files ref_env ?w1 ''/srv/docs'' ?names = [''b.docx (File is not a zip file)'']"
    by code_simp
  have ev: "trace ?w1 @ folder_events ref_env ?w1 ''/srv/docs'' ?names
              = [MadeDir ''/srv/docs/markdown_output'',
                 Converted (MarkItDown False) ''/srv/docs/a.txt'',
                 Wrote ''/srv/docs/markdown_output/a.md'',
                 Converted (MarkItDown False) ''/srv/docs/b.docx'',
                 Converted (MarkItDown False) ''/srv/docs/c.txt'',
                 Wrote ''/srv/docs/markdown_output/c.md'',
                 Converted (MarkItDown False) ''/srv/docs/c.html'',
                 Wrote ''/srv/docs/markdown_output/c.md'']"
    by code_simp
  have ck: "clock ?w1 = 10000" by code_simp
  have su: "git_ok_mark @ '' Converted '' @ str_nat (length ?conv)
              @ '' files. Markdown saved to: '' @ ''/srv/docs/markdown_output'' @ nl
              @ (if [''b.docx (File is not a zip file)''] = [] then []
                 else git_warn_mark @ '' Skipped ''
                        @ str_nat (length [''b.docx (File is not a zip file)''])
                        @ '' files: '' @ join_str '', '' [''b.docx (File is not a zip file)''])
            = git_ok_mark @ '' Converted 3 files. Markdown saved to: /srv/docs/markdown_output''
                @ nl @ git_warn_mark @ '' Skipped 1 files: b.docx (File is not a zip file)''"
    by code_simp
  have pa: "markdown_path ''/srv/docs'' ''a.txt'' = ''/srv/docs/markdown_output/a.md''" by code_simp
  have pc: "markdown_path ''/srv/docs'' ''c.txt'' = ''/srv/docs/markdown_output/c.md''" by code_simp
  have la: "last (filter (\<lambda>m. markdown_path ''/srv/docs'' m = markdown_path ''/srv/docs'' ''a.txt'') ?conv)
              = ''a.txt''" by code_simp
  have lc: "last (filter (\<lambda>m. markdown_path ''/srv/docs'' m = markdown_path ''/srv/docs'' ''c.txt'') ?conv)
              = ''c.html''" by code_simp
  have oa: "file_outcome ref_env ?w1 ''/srv/docs'' ''a.txt'' = Inr ''alpha''" by code_simp
  have oc: "file_outcome ref_env ?w1 ''/srv/docs'' ''c.html'' = Inr ''<p>gamma</p>''" by code_simp
  have jb: "os_path_join ''/srv/docs'' ''b.docx'' = ''/srv/docs/b.docx''" by code_simp
  have lb: "lookup ?w1 ''/srv/docs/b.docx'' = Some (File ''not a zip'' 0)" by code_simp
  from C10_files_converted_independently [OF d m, of ref_env, unfolded Let_def a l c k j su ev ck]
  obtain w2 where
    r: "convert_folder ref_env docs_world ''docs''
          = (Inr (git_ok_mark @ '' Converted 3 files. Markdown saved to: /srv/docs/markdown_output''
                    @ nl @ git_warn_mark
                    @ '' Skipped 1 files: b.docx (File is not a zip file)''), w2)"
    and t: "trace w2 = [MadeDir ''/srv/docs/markdown_output'',
                 Converted (MarkItDown False) ''/srv/docs/a.txt'',
                 Wrote ''/srv/docs/markdown_output/a.md'',
                 Converted (MarkItDown False) ''/srv/docs/b.docx'',
                 Converted (MarkItDown False) ''/srv/docs/c.txt'',
                 Wrote ''/srv/docs/markdown_output/c.md'',
                 Converted (MarkItDown False) ''/srv/docs/c.html'',
                 Wrote ''/srv/docs/markdown_output/c.md'']"
    and o: "\<forall>n \<in> set ?conv.
              \<exists>t. file_outcome ref_env ?w1 ''/srv/docs''
                     (last (filter (\<lambda>m. markdown_path ''/srv/docs'' m
                                           = markdown_path ''/srv/docs'' n) ?conv)) = Inr t
                   \<and> lookup w2 (markdown_path ''/srv/docs'' n) = Some (File t 10000)"
    and i: "\<forall>n. CHR ''/'' \<notin> set n \<longrightarrow>
              lookup w2 (os_path_join ''/srv/docs'' n) = lookup ?w1 (os_path_join ''/srv/docs'' n)"
    by blast
  have xa: "lookup w2 ''/srv/docs/markdown_output/a.md'' = Some (File ''alpha'' 10000)"
  proof -
    have "''a.txt'' \<in> set ?conv" by simp
    from o [rule_format, OF this, unfolded la, unfolded oa pa] show ?thesis by simp
  qed
  have xc: "lookup w2 ''/srv/docs/markdown_output/c.md'' = Some (File ''<p>gamma</p>'' 10000)"
  proof -
    have "''c.txt'' \<in> set ?conv" by simp
    from o [rule_format, OF this, unfolded lc, unfolded oc pc] show ?thesis by simp
  qed
  have xb: "lookup w2 ''/srv/docs/b.docx'' = Some (File ''not a zip'' 0)"
  proof -
    have "CHR ''/'' \<notin> set ''b.docx''" by simp
    from i [rule_format, OF this, unfolded jb, unfolded lb] show ?thesis .
  qed
  from d f r t xa xc xb show ?thesis by blast
qed

end
